theory Spec2Isabelle
  imports Complex_Main "HOL-Library.AList"
begin

section \<open>The game-state engine of useGameState.ts\<close>

text \<open>
  The hook \<^verbatim>\<open>useGameState\<close> owns one \<^verbatim>\<open>GameState\<close> value and exposes a catalogue of
  operations; every operation but \<^verbatim>\<open>resetGame\<close> hands an updater
  \<^verbatim>\<open>(state) => state\<close> to \<^verbatim>\<open>updateGameState\<close>. Each updater is embedded here as a
  function on a record, called once for each dispatch.

  Conventions of the embedding:
  \<^item> a TypeScript \<^verbatim>\<open>number\<close> is a \<^typ>\<open>real\<close>; \<^verbatim>\<open>NaN\<close> and the infinities are outside
    the model. The products with the literals 0.7, 1.15 and 0.1 and the sum and products
    behind the streak multiplier and the victory rewards are rounded as binary64 rounds
    them (\<open>fl\<close> below), because a \<^verbatim>\<open>Math.floor\<close> of them can differ from the floor
    of the exact value. The other arithmetic is written exact;
  \<^item> \<^verbatim>\<open>null\<close> and \<^verbatim>\<open>undefined\<close> are \<^const>\<open>None\<close>;
  \<^item> every call of \<^verbatim>\<open>Math.random()\<close>, \<^verbatim>\<open>new Date()\<close> and of a generator imported
    from \<^verbatim>\<open>utils/gameUtils\<close> is an argument of the operation that makes the call;
  \<^item> a line of the combat log is a value of \<open>LogLine\<close>, one constructor for each
    template string of the source;
  \<^item> \<^verbatim>\<open>achievements\<close> and \<^verbatim>\<open>playerTags\<close>, built by imported initialisers and
    touched by no operation of the hook, are left out of the record;
  \<^item> \<^verbatim>\<open>loadGameState\<close>, which merges untyped objects, is embedded on a datatype of
    JavaScript values further down.
\<close>

subsection \<open>Numbers\<close>

definition Math_floor :: "real \<Rightarrow> real" where
  "Math_floor x = of_int \<lfloor>x\<rfloor>"

definition Math_max :: "real \<Rightarrow> real \<Rightarrow> real" where
  "Math_max a b = max a b"

text \<open>
  Rounding to binary64, for a value in the range of the normal doubles: the magnitude is
  scaled by powers of two into the interval from \<open>2^52\<close> up to (not including) \<open>2^53\<close>,
  rounded to the nearest integer with ties to the even one, and scaled back.
\<close>

definition roundEven :: "real \<Rightarrow> int" where
  "roundEven m =
     (if m - of_int \<lfloor>m\<rfloor> < 1 / 2 then \<lfloor>m\<rfloor>
      else if 1 / 2 < m - of_int \<lfloor>m\<rfloor> then \<lfloor>m\<rfloor> + 1
      else if even \<lfloor>m\<rfloor> then \<lfloor>m\<rfloor> else \<lfloor>m\<rfloor> + 1)"

function scaleUp :: "real \<Rightarrow> real \<Rightarrow> real \<times> real" where
  "scaleUp m u = (if 0 < m \<and> m < 2 ^ 52 then scaleUp (2 * m) (u / 2) else (m, u))"
  by pat_completeness auto
termination
proof (relation "measure (\<lambda>(m, u). nat \<lceil>2 ^ 52 / m\<rceil>)")
  show "wf (measure (\<lambda>(m, u). nat \<lceil>2 ^ 52 / m\<rceil>))" by simp
next
  fix m u :: real
  assume h: "0 < m \<and> m < 2 ^ 52"
  define y where "y = 2 ^ 52 / m"
  have y1: "1 < y" using h by (simp add: y_def)
  then have c2: "2 \<le> \<lceil>y\<rceil>" by linarith
  have "y / 2 \<le> of_int \<lceil>y\<rceil> / 2" by (simp add: le_of_int_ceiling)
  also have "\<dots> \<le> of_int (\<lceil>y\<rceil> - 1)" using c2 by simp
  finally have "y / 2 \<le> of_int (\<lceil>y\<rceil> - 1)" .
  then have "\<lceil>y / 2\<rceil> \<le> \<lceil>y\<rceil> - 1" by (rule ceiling_le)
  then have lt: "nat \<lceil>y / 2\<rceil> < nat \<lceil>y\<rceil>" using c2 by simp
  have e: "(2::real) ^ 52 / (2 * m) = y / 2"
    unfolding y_def by (simp only: divide_divide_eq_left mult.commute)
  have "nat \<lceil>2 ^ 52 / (2 * m)\<rceil> < nat \<lceil>2 ^ 52 / m\<rceil>"
    unfolding e using lt unfolding y_def .
  then show "((2 * m, u / 2), (m, u)) \<in> measure (\<lambda>(m, u). nat \<lceil>2 ^ 52 / m\<rceil>)"
    by (simp only: in_measure prod.case)
qed

function scaleDown :: "real \<Rightarrow> real \<Rightarrow> real \<times> real" where
  "scaleDown m u = (if 2 ^ 53 \<le> m then scaleDown (m / 2) (u * 2) else (m, u))"
  by pat_completeness auto
termination
proof (relation "measure (\<lambda>(m, u). nat \<lfloor>m\<rfloor>)")
  show "wf (measure (\<lambda>(m, u). nat \<lfloor>m\<rfloor>))" by simp
next
  fix m u :: real
  assume h: "2 ^ 53 \<le> m"
  then have m2: "2 \<le> m" by simp
  then have "\<lfloor>m / 2\<rfloor> < \<lfloor>m\<rfloor>" by linarith
  moreover have "0 < \<lfloor>m\<rfloor>" using m2 by linarith
  ultimately show "((m / 2, u * 2), (m, u)) \<in> measure (\<lambda>(m, u). nat \<lfloor>m\<rfloor>)"
    by simp
qed

declare scaleUp.simps [simp del] scaleDown.simps [simp del]

text \<open>The scaled magnitude and the power of two that scales it back.\<close>

definition normalise :: "real \<Rightarrow> real \<times> real" where
  "normalise x = scaleDown (fst (scaleUp x 1)) (snd (scaleUp x 1))"

definition fl :: "real \<Rightarrow> real" where
  "fl x =
     (if x = 0 then 0
      else sgn x * (of_int (roundEven (fst (normalise \<bar>x\<bar>))) * snd (normalise \<bar>x\<bar>)))"


subsection \<open>Data model\<close>

datatype Rarity = Common | Rare | Epic | Legendary | Mythical

datatype SkillType =
  Risker | LightningChain | SkipCard | MetalShield | TruthLies | Ramp | Dodge

datatype MenuSkillType = CoinVacuum | Treasurer | XpSurge | LuckGem | Enchanter

datatype GameModeName = Normal | Blitz | Bloodlust | Crazy | Survival | TimeAttack | Boss

datatype CheatKey = InfiniteCoins | InfiniteGems | ObtainAnyItem

datatype ItemKind = WeaponKind | ArmorKind

datatype LogLine =
    Encounter string
  | YouDeal real
  | YouDodge
  | EnemyDeals real
  | Victory real real
  | MetalShieldActivated
  | Revived
  | Defeated

record Enemy =
  name :: string
  hp :: real
  atk :: real
  "def" :: real

record PlayerStats =
  hp :: real
  maxHp :: real
  atk :: real
  "def" :: real
  baseAtk :: real
  baseDef :: real
  baseHp :: real

text \<open>\<^verbatim>\<open>Weapon\<close> and \<^verbatim>\<open>Armor\<close> are used through the same fields.\<close>

record Item =
  id :: string
  name :: string
  rarity :: Rarity
  level :: real
  upgradeCost :: real
  sellPrice :: real

type_synonym Weapon = Item
type_synonym Armor = Item

record RelicItem =
  id :: string
  name :: string
  cost :: real
  level :: real
  upgradeCost :: real
  baseAtk :: "real option"
  baseDef :: "real option"

record Inventory =
  weapons :: "Weapon list"
  armor :: "Armor list"
  relics :: "RelicItem list"
  currentWeapon :: "Weapon option"
  currentArmor :: "Armor option"
  equippedRelics :: "RelicItem list"

record Research =
  level :: real
  totalSpent :: real
  availableUpgrades :: "string list"

record CollectionBook =
  weapons :: "string \<rightharpoonup> bool"
  armor :: "string \<rightharpoonup> bool"
  totalWeaponsFound :: real
  totalArmorFound :: real
  rarityStats :: "Rarity \<Rightarrow> real"

record KnowledgeStreak =
  current :: real
  best :: real
  multiplier :: real

record GameMode =
  current :: GameModeName
  speedModeActive :: bool
  survivalLives :: real
  maxSurvivalLives :: real
  timeAttackScore :: real
  timeAttackTimeLeft :: real
  bossProgress :: real

record CategoryAccuracy =
  correct :: real
  total :: real

record Statistics =
  totalQuestionsAnswered :: real
  correctAnswers :: real
  totalPlayTime :: real
  zonesReached :: real
  itemsCollected :: real
  coinsEarned :: real
  gemsEarned :: real
  shinyGemsEarned :: real
  chestsOpened :: real
  accuracyByCategory :: "string \<rightharpoonup> CategoryAccuracy"
  sessionStartTime :: real
  totalDeaths :: real
  totalVictories :: real
  longestStreak :: real
  fastestVictory :: real
  totalDamageDealt :: real
  totalDamageTaken :: real
  itemsUpgraded :: real
  itemsSold :: real
  totalResearchSpent :: real
  averageAccuracy :: real
  revivals :: real

record Cheats =
  infiniteCoins :: bool
  infiniteGems :: bool
  obtainAnyItem :: bool

record Mining =
  totalGemsMined :: real
  totalShinyGemsMined :: real

record YojefMarket =
  items :: "RelicItem list"
  lastRefresh :: real
  nextRefresh :: real

record DailyReward =
  coins :: real
  gems :: real
  claimed :: bool
  claimDate :: "real option"

record DailyRewards =
  lastClaimDate :: "real option"
  currentStreak :: real
  maxStreak :: real
  availableReward :: "DailyReward option"
  rewardHistory :: "DailyReward list"

record Progression =
  level :: real
  experience :: real
  experienceToNext :: real
  skillPoints :: real
  unlockedSkills :: "string list"
  prestigeLevel :: real
  prestigePoints :: real
  masteryLevels :: "string \<rightharpoonup> real"

record OfflineProgress =
  lastSaveTime :: real
  offlineCoins :: real
  offlineGems :: real
  offlineTime :: real
  maxOfflineHours :: real

record GardenOfGrowth =
  isPlanted :: bool
  plantedAt :: "real option"
  lastWatered :: "real option"
  waterHoursRemaining :: real
  growthCm :: real
  totalGrowthBonus :: real
  seedCost :: real
  waterCost :: real
  maxGrowthCm :: real

record Settings =
  colorblindMode :: bool
  darkMode :: bool
  language :: string
  notifications :: bool

text \<open>\<^verbatim>\<open>Partial<settings>\<close>: an absent key is \<^const>\<open>None\<close>.\<close>

record PartialSettings =
  colorblindMode :: "bool option"
  darkMode :: "bool option"
  language :: "string option"
  notifications :: "bool option"

record MenuSkill =
  id :: string
  name :: string
  description :: string
  duration :: real
  activatedAt :: real
  expiresAt :: real
  type :: MenuSkillType

record Skills =
  activeMenuSkill :: "MenuSkill option"
  lastRollTime :: "real option"
  playTimeThisSession :: real
  sessionStartTime :: real

record AdventureSkill =
  id :: string
  name :: string
  description :: string
  type :: SkillType

record SkillEffects =
  skipCardUsed :: bool
  metalShieldUsed :: bool
  dodgeUsed :: bool
  truthLiesActive :: bool
  lightningChainActive :: bool
  rampActive :: bool

record AdventureSkills =
  selectedSkill :: "AdventureSkill option"
  availableSkills :: "AdventureSkill list"
  showSelectionModal :: bool
  skillEffects :: SkillEffects

record GameState =
  coins :: real
  gems :: real
  shinyGems :: real
  zone :: real
  playerStats :: PlayerStats
  inventory :: Inventory
  currentEnemy :: "Enemy option"
  inCombat :: bool
  combatLog :: "LogLine list"
  research :: Research
  isPremium :: bool
  collectionBook :: CollectionBook
  knowledgeStreak :: KnowledgeStreak
  gameMode :: GameMode
  statistics :: Statistics
  cheats :: Cheats
  mining :: Mining
  yojefMarket :: YojefMarket
  dailyRewards :: DailyRewards
  progression :: Progression
  offlineProgress :: OfflineProgress
  gardenOfGrowth :: GardenOfGrowth
  settings :: Settings
  hasUsedRevival :: bool
  skills :: Skills
  adventureSkills :: AdventureSkills

subsection \<open>createInitialGameState\<close>

definition emptySkillEffects :: SkillEffects where
  "emptySkillEffects =
     \<lparr> skipCardUsed = False, metalShieldUsed = False, dodgeUsed = False,
       truthLiesActive = False, lightningChainActive = False, rampActive = False \<rparr>"

definition emptyAdventureSkills :: AdventureSkills where
  "emptyAdventureSkills =
     \<lparr> selectedSkill = None, availableSkills = [], showSelectionModal = False,
       skillEffects = emptySkillEffects \<rparr>"

definition initialStatistics :: "real \<Rightarrow> Statistics" where
  "initialStatistics now =
     \<lparr> totalQuestionsAnswered = 0, correctAnswers = 0, totalPlayTime = 0, zonesReached = 1,
       itemsCollected = 0, coinsEarned = 0, gemsEarned = 0, shinyGemsEarned = 0,
       chestsOpened = 0, accuracyByCategory = Map.empty,
       Statistics.sessionStartTime = now, totalDeaths = 0, totalVictories = 0,
       longestStreak = 0, fastestVictory = 0, totalDamageDealt = 0, totalDamageTaken = 0,
       itemsUpgraded = 0, itemsSold = 0, totalResearchSpent = 0, averageAccuracy = 0,
       revivals = 0 \<rparr>"

text \<open>The argument is the clock value read by \<^verbatim>\<open>new Date()\<close> and \<^verbatim>\<open>Date.now()\<close>.\<close>

definition createInitialGameState :: "real \<Rightarrow> GameState" where
  "createInitialGameState now =
     \<lparr> coins = 100, gems = 0, shinyGems = 0, zone = 1,
       playerStats =
         \<lparr> PlayerStats.hp = 100, maxHp = 100, PlayerStats.atk = 20, PlayerStats.def = 10,
           PlayerStats.baseAtk = 20, PlayerStats.baseDef = 10, baseHp = 100 \<rparr>,
       inventory =
         \<lparr> Inventory.weapons = [], Inventory.armor = [], relics = [],
           currentWeapon = None, currentArmor = None, equippedRelics = [] \<rparr>,
       currentEnemy = None, inCombat = False, combatLog = [],
       research =
         \<lparr> Research.level = 0, totalSpent = 0,
           availableUpgrades = [''atk'', ''def'', ''hp''] \<rparr>,
       isPremium = False,
       collectionBook =
         \<lparr> CollectionBook.weapons = Map.empty, CollectionBook.armor = Map.empty,
           totalWeaponsFound = 0, totalArmorFound = 0, rarityStats = (\<lambda>r. 0) \<rparr>,
       knowledgeStreak = \<lparr> KnowledgeStreak.current = 0, best = 0, multiplier = 1 \<rparr>,
       gameMode =
         \<lparr> GameMode.current = Normal, speedModeActive = False, survivalLives = 3,
           maxSurvivalLives = 3, timeAttackScore = 0, timeAttackTimeLeft = 60,
           bossProgress = 0 \<rparr>,
       statistics = initialStatistics now,
       cheats = \<lparr> infiniteCoins = False, infiniteGems = False, obtainAnyItem = False \<rparr>,
       mining = \<lparr> totalGemsMined = 0, totalShinyGemsMined = 0 \<rparr>,
       yojefMarket =
         \<lparr> items = [], lastRefresh = now, nextRefresh = now + 24 * 60 * 60 * 1000 \<rparr>,
       dailyRewards =
         \<lparr> lastClaimDate = None, currentStreak = 0, maxStreak = 0,
           availableReward = None, rewardHistory = [] \<rparr>,
       progression =
         \<lparr> Progression.level = 1, experience = 0, experienceToNext = 100, skillPoints = 0,
           unlockedSkills = [], prestigeLevel = 0, prestigePoints = 0,
           masteryLevels = Map.empty \<rparr>,
       offlineProgress =
         \<lparr> lastSaveTime = now, offlineCoins = 0, offlineGems = 0, offlineTime = 0,
           maxOfflineHours = 24 \<rparr>,
       gardenOfGrowth =
         \<lparr> isPlanted = False, plantedAt = None, lastWatered = None,
           waterHoursRemaining = 0, growthCm = 0, totalGrowthBonus = 0, seedCost = 1000,
           waterCost = 500, maxGrowthCm = 100 \<rparr>,
       settings =
         \<lparr> Settings.colorblindMode = False, Settings.darkMode = True,
           Settings.language = ''en'', Settings.notifications = True \<rparr>,
       hasUsedRevival = False,
       skills =
         \<lparr> activeMenuSkill = None, lastRollTime = None, playTimeThisSession = 0,
           Skills.sessionStartTime = now \<rparr>,
       adventureSkills = emptyAdventureSkills \<rparr>"

subsection \<open>Equipment and economy operations\<close>

definition equipWeapon :: "Weapon \<Rightarrow> GameState \<Rightarrow> GameState" where
  "equipWeapon weapon state =
     state\<lparr> inventory := (inventory state)\<lparr> currentWeapon := Some weapon \<rparr> \<rparr>"

definition equipArmor :: "Armor \<Rightarrow> GameState \<Rightarrow> GameState" where
  "equipArmor armr state =
     state\<lparr> inventory := (inventory state)\<lparr> currentArmor := Some armr \<rparr> \<rparr>"

text \<open>The object literal of a level-up: \<^verbatim>\<open>{...w, level: w.level + 1, upgradeCost: Math.floor(w.upgradeCost * 1.5)}\<close>.\<close>

definition levelUp :: "Item \<Rightarrow> Item" where
  "levelUp w = w\<lparr> Item.level := Item.level w + 1,
                   Item.upgradeCost := Math_floor (Item.upgradeCost w * 1.5) \<rparr>"

text \<open>\<^verbatim>\<open>current?.id === itemId ? updated.find(x => x.id === itemId) || current : current\<close>\<close>

definition refreshCurrent :: "string \<Rightarrow> Item list \<Rightarrow> Item option \<Rightarrow> Item option" where
  "refreshCurrent itemId updated cur =
     (case cur of
        None \<Rightarrow> None
      | Some c \<Rightarrow>
          if Item.id c = itemId
          then (case find (\<lambda>w. Item.id w = itemId) updated of
                  Some u \<Rightarrow> Some u
                | None \<Rightarrow> cur)
          else cur)"

definition upgradeWeapon :: "string \<Rightarrow> GameState \<Rightarrow> GameState" where
  "upgradeWeapon weaponId state =
     (case find (\<lambda>w. Item.id w = weaponId) (Inventory.weapons (inventory state)) of
        None \<Rightarrow> state
      | Some weapon \<Rightarrow>
          if gems state < Item.upgradeCost weapon then state
          else
            let updatedWeapons =
                  map (\<lambda>w. if Item.id w = weaponId then levelUp w else w)
                    (Inventory.weapons (inventory state));
                updatedCurrentWeapon =
                  refreshCurrent weaponId updatedWeapons (currentWeapon (inventory state))
            in state\<lparr> gems := gems state - Item.upgradeCost weapon,
                      inventory := (inventory state)
                        \<lparr> Inventory.weapons := updatedWeapons,
                          currentWeapon := updatedCurrentWeapon \<rparr>,
                      statistics := (statistics state)
                        \<lparr> itemsUpgraded := itemsUpgraded (statistics state) + 1 \<rparr> \<rparr>)"

definition upgradeArmor :: "string \<Rightarrow> GameState \<Rightarrow> GameState" where
  "upgradeArmor armorId state =
     (case find (\<lambda>a. Item.id a = armorId) (Inventory.armor (inventory state)) of
        None \<Rightarrow> state
      | Some armr \<Rightarrow>
          if gems state < Item.upgradeCost armr then state
          else
            let updatedArmor =
                  map (\<lambda>a. if Item.id a = armorId then levelUp a else a)
                    (Inventory.armor (inventory state));
                updatedCurrentArmor =
                  refreshCurrent armorId updatedArmor (currentArmor (inventory state))
            in state\<lparr> gems := gems state - Item.upgradeCost armr,
                      inventory := (inventory state)
                        \<lparr> Inventory.armor := updatedArmor,
                          currentArmor := updatedCurrentArmor \<rparr>,
                      statistics := (statistics state)
                        \<lparr> itemsUpgraded := itemsUpgraded (statistics state) + 1 \<rparr> \<rparr>)"

text \<open>\<^verbatim>\<open>current?.id === itemId\<close>\<close>

definition isCurrent :: "Item option \<Rightarrow> string \<Rightarrow> bool" where
  "isCurrent cur itemId = (case cur of None \<Rightarrow> False | Some c \<Rightarrow> Item.id c = itemId)"

definition sellWeapon :: "string \<Rightarrow> GameState \<Rightarrow> GameState" where
  "sellWeapon weaponId state =
     (case find (\<lambda>w. Item.id w = weaponId) (Inventory.weapons (inventory state)) of
        None \<Rightarrow> state
      | Some weapon \<Rightarrow>
          if isCurrent (currentWeapon (inventory state)) weaponId then state
          else state\<lparr> coins := coins state + sellPrice weapon,
                      inventory := (inventory state)
                        \<lparr> Inventory.weapons :=
                            filter (\<lambda>w. Item.id w \<noteq> weaponId)
                              (Inventory.weapons (inventory state)) \<rparr>,
                      statistics := (statistics state)
                        \<lparr> itemsSold := itemsSold (statistics state) + 1 \<rparr> \<rparr>)"

definition sellArmor :: "string \<Rightarrow> GameState \<Rightarrow> GameState" where
  "sellArmor armorId state =
     (case find (\<lambda>a. Item.id a = armorId) (Inventory.armor (inventory state)) of
        None \<Rightarrow> state
      | Some armr \<Rightarrow>
          if isCurrent (currentArmor (inventory state)) armorId then state
          else state\<lparr> coins := coins state + sellPrice armr,
                      inventory := (inventory state)
                        \<lparr> Inventory.armor :=
                            filter (\<lambda>a. Item.id a \<noteq> armorId)
                              (Inventory.armor (inventory state)) \<rparr>,
                      statistics := (statistics state)
                        \<lparr> itemsSold := itemsSold (statistics state) + 1 \<rparr> \<rparr>)"

text \<open>
  The first argument stands for the imported \<^verbatim>\<open>calculateResearchCost\<close>; the source's
  \<^verbatim>\<open>type\<close> argument is not used by the updater.
\<close>

definition upgradeResearch :: "(real \<Rightarrow> real) \<Rightarrow> GameState \<Rightarrow> GameState" where
  "upgradeResearch calculateResearchCost state =
     (let cost' = calculateResearchCost (Research.level (research state))
      in if coins state < cost' then state
         else state\<lparr> coins := coins state - cost',
                     research := (research state)
                       \<lparr> Research.level := Research.level (research state) + 1,
                         totalSpent := totalSpent (research state) + cost' \<rparr>,
                     statistics := (statistics state)
                       \<lparr> totalResearchSpent :=
                           totalResearchSpent (statistics state) + cost' \<rparr> \<rparr>)"

subsection \<open>Chests\<close>

definition rarities :: "Rarity list" where
  "rarities = [Common, Rare, Epic, Legendary, Mythical]"

text \<open>\<^verbatim>\<open>rarities[i]\<close>, which is \<^verbatim>\<open>undefined\<close> past the end of the array.\<close>

definition rarityAt :: "nat \<Rightarrow> Rarity option" where
  "rarityAt i = (if i < length rarities then Some (rarities ! i) else None)"

text \<open>
  The \<^verbatim>\<open>for\<close> loop of \<^verbatim>\<open>openChest\<close>, started at index \<open>i\<close> with the weights not yet
  visited: it adds the next weight to \<open>cumulative\<close> and stops at the first index where
  \<^verbatim>\<open>random <= cumulative\<close>; when the weights run out, \<open>selectedRarity\<close> is left as it was.
\<close>

fun rarityLoop :: "real list \<Rightarrow> nat \<Rightarrow> real \<Rightarrow> real \<Rightarrow> Rarity option \<Rightarrow> Rarity option" where
  "rarityLoop [] i cumulative random selectedRarity = selectedRarity"
| "rarityLoop (w # ws) i cumulative random selectedRarity =
     (if random \<le> cumulative + w then rarityAt i
      else rarityLoop ws (Suc i) (cumulative + w) random selectedRarity)"

definition selectRarity :: "real list \<Rightarrow> real \<Rightarrow> Rarity option" where
  "selectRarity weights random = rarityLoop weights 0 0 random (Some Common)"

text \<open>
  The names every plain object inherits from \<^verbatim>\<open>Object.prototype\<close>. Reading one of them
  on an object that has no property of its own under that name gives the inherited
  function or object, which is truthy.
\<close>

definition objectPrototypeNames :: "string list" where
  "objectPrototypeNames =
     [''constructor'', ''__defineGetter__'', ''__defineSetter__'', ''hasOwnProperty'',
      ''__lookupGetter__'', ''__lookupSetter__'', ''isPrototypeOf'', ''propertyIsEnumerable'',
      ''toString'', ''valueOf'', ''__proto__'', ''toLocaleString'']"

text \<open>
  \<^verbatim>\<open>if (!book[item.name]) { book[item.name] = true; total += 1 }\<close>: nothing is recorded
  when the entry is \<^verbatim>\<open>true\<close>, nor when there is no entry and the name is an inherited one.
\<close>

definition discover :: "string \<Rightarrow> (string \<rightharpoonup> bool) \<times> real \<Rightarrow> (string \<rightharpoonup> bool) \<times> real" where
  "discover itemName bt =
     (if fst bt itemName = Some True
         \<or> (fst bt itemName = None \<and> itemName \<in> set objectPrototypeNames)
      then bt
      else ((fst bt)(itemName \<mapsto> True), snd bt + 1))"

text \<open>
  \<open>weights\<close> is the value of \<^verbatim>\<open>getChestRarityWeights(cost)\<close>, \<open>random\<close> is
  \<^verbatim>\<open>Math.random() * 100\<close>, \<open>r2\<close> and \<open>r3\<close> are the two later calls of
  \<^verbatim>\<open>Math.random()\<close>, and the two functions stand for \<^verbatim>\<open>generateWeapon\<close> and
  \<^verbatim>\<open>generateArmor\<close>.
\<close>

definition openChest ::
  "real \<Rightarrow> real list \<Rightarrow> real \<Rightarrow> real \<Rightarrow> real \<Rightarrow> (bool \<Rightarrow> Rarity option \<Rightarrow> Item) \<Rightarrow>
   (bool \<Rightarrow> Rarity option \<Rightarrow> Item) \<Rightarrow> GameState \<Rightarrow> GameState" where
  "openChest cost' weights random r2 r3 generateWeapon generateArmor state =
     (if coins state < cost' then state
      else
        let selectedRarity = selectRarity weights random;
            isWeapon = (r2 < 0.7);
            item = (if isWeapon then generateWeapon False selectedRarity
                    else generateArmor False selectedRarity);
            newInventory =
              (if isWeapon
               then (inventory state)
                      \<lparr> Inventory.weapons := Inventory.weapons (inventory state) @ [item] \<rparr>
               else (inventory state)
                      \<lparr> Inventory.armor := Inventory.armor (inventory state) @ [item] \<rparr>);
            book = collectionBook state;
            book1 =
              (if isWeapon
               then (let d = discover (Item.name item)
                               (CollectionBook.weapons book, totalWeaponsFound book)
                     in book\<lparr> CollectionBook.weapons := fst d, totalWeaponsFound := snd d \<rparr>)
               else (let d = discover (Item.name item)
                               (CollectionBook.armor book, totalArmorFound book)
                     in book\<lparr> CollectionBook.armor := fst d, totalArmorFound := snd d \<rparr>));
            newCollectionBook =
              book1\<lparr> rarityStats :=
                       (rarityStats book1)(rarity item := rarityStats book1 (rarity item) + 1) \<rparr>
        in state\<lparr> coins := coins state - cost',
                  gems := gems state + Math_floor (r3 * 10) + 5,
                  inventory := newInventory,
                  collectionBook := newCollectionBook,
                  statistics := (statistics state)
                    \<lparr> chestsOpened := chestsOpened (statistics state) + 1,
                      itemsCollected := itemsCollected (statistics state) + 1 \<rparr> \<rparr>)"

definition purchaseMythical ::
  "real \<Rightarrow> real \<Rightarrow> (bool \<Rightarrow> Rarity option \<Rightarrow> Item) \<Rightarrow> (bool \<Rightarrow> Rarity option \<Rightarrow> Item) \<Rightarrow>
   GameState \<Rightarrow> GameState" where
  "purchaseMythical cost' r generateWeapon generateArmor state =
     (if coins state < cost' then state
      else
        let isWeapon = (r < 0.5);
            item = (if isWeapon then generateWeapon False (Some Mythical)
                    else generateArmor False (Some Mythical));
            newInventory =
              (if isWeapon
               then (inventory state)
                      \<lparr> Inventory.weapons := Inventory.weapons (inventory state) @ [item] \<rparr>
               else (inventory state)
                      \<lparr> Inventory.armor := Inventory.armor (inventory state) @ [item] \<rparr>)
        in state\<lparr> coins := coins state - cost', inventory := newInventory \<rparr>)"

subsection \<open>Adventure skills\<close>

definition allSkills :: "AdventureSkill list" where
  "allSkills =
     [ \<lparr> AdventureSkill.id = ''risker'', AdventureSkill.name = ''Risker'',
         AdventureSkill.description = ''Lose 15% health but get 20% extra ATK'',
         AdventureSkill.type = Risker \<rparr>,
       \<lparr> AdventureSkill.id = ''lightning_chain'', AdventureSkill.name = ''Lightning Chain'',
         AdventureSkill.description =
           ''Every correct answer, deal 15% extra ATK but every wrong answer, be dealt 10% more ATK'',
         AdventureSkill.type = LightningChain \<rparr>,
       \<lparr> AdventureSkill.id = ''skip_card'', AdventureSkill.name = ''Skip Card'',
         AdventureSkill.description = ''Skip any question. Effective only once.'',
         AdventureSkill.type = SkipCard \<rparr>,
       \<lparr> AdventureSkill.id = ''metal_shield'', AdventureSkill.name = ''Metal Shield'',
         AdventureSkill.description =
           ''If you are about to die, auto sacrifice 30% ATK to just cancel damage taken'',
         AdventureSkill.type = MetalShield \<rparr>,
       \<lparr> AdventureSkill.id = ''truth_lies'', AdventureSkill.name = ''1 Truth, 2 Lies'',
         AdventureSkill.description =
           ''Remove one of the wrong answers in a multi choice question for the ENTIRE adventure'',
         AdventureSkill.type = TruthLies \<rparr>,
       \<lparr> AdventureSkill.id = ''ramp'', AdventureSkill.name = ''Ramp'',
         AdventureSkill.description = ''A random stat is doubled but another is reduced by 40%'',
         AdventureSkill.type = Ramp \<rparr>,
       \<lparr> AdventureSkill.id = ''dodge'', AdventureSkill.name = ''Dodge'',
         AdventureSkill.description = ''Don't take damage from the first wrong answer'',
         AdventureSkill.type = Dodge \<rparr> ]"

text \<open>
  \<open>shuffled\<close> is the array left by \<^verbatim>\<open>[...allSkills].sort(() => Math.random() - 0.5)\<close>,
  whose order depends on the engine's sort; the function returns its first three entries.
\<close>

definition generateRandomAdventureSkills :: "AdventureSkill list \<Rightarrow> AdventureSkill list" where
  "generateRandomAdventureSkills shuffled = take 3 shuffled"

definition startCombat :: "AdventureSkill list \<Rightarrow> GameState \<Rightarrow> GameState" where
  "startCombat shuffled state =
     state\<lparr> adventureSkills := (adventureSkills state)
              \<lparr> availableSkills := generateRandomAdventureSkills shuffled,
                showSelectionModal := True \<rparr> \<rparr>"

datatype StatName = AtkStat | DefStat | HpStat

definition doubleStat :: "StatName \<Rightarrow> PlayerStats \<Rightarrow> PlayerStats" where
  "doubleStat st p =
     (if st = AtkStat then p\<lparr> PlayerStats.atk := PlayerStats.atk p * 2 \<rparr>
      else if st = DefStat then p\<lparr> PlayerStats.def := PlayerStats.def p * 2 \<rparr>
      else p\<lparr> PlayerStats.hp := PlayerStats.hp p * 2 \<rparr>)"

definition reduceStat :: "StatName \<Rightarrow> PlayerStats \<Rightarrow> PlayerStats" where
  "reduceStat st p =
     (if st = AtkStat then p\<lparr> PlayerStats.atk := Math_floor (PlayerStats.atk p * 0.6) \<rparr>
      else if st = DefStat then p\<lparr> PlayerStats.def := Math_floor (PlayerStats.def p * 0.6) \<rparr>
      else p\<lparr> PlayerStats.hp := Math_floor (PlayerStats.hp p * 0.6) \<rparr>)"

text \<open>
  \<open>r1\<close>, \<open>r2\<close> are the draws of \<^verbatim>\<open>statToDouble\<close> (the second one is made only when
  the first fails), \<open>r3\<close> is the draw of \<^verbatim>\<open>statToReduce\<close>.
\<close>

definition statToDouble :: "real \<Rightarrow> real \<Rightarrow> StatName" where
  "statToDouble r1 r2 = (if r1 < 0.33 then AtkStat else if r2 < 0.5 then DefStat else HpStat)"

definition statToReduce :: "StatName \<Rightarrow> real \<Rightarrow> StatName" where
  "statToReduce doubled r3 =
     (if doubled = AtkStat then (if r3 < 0.5 then DefStat else HpStat)
      else if doubled = DefStat then (if r3 < 0.5 then AtkStat else HpStat)
      else (if r3 < 0.5 then AtkStat else DefStat))"

text \<open>The \<^verbatim>\<open>switch (skill.type)\<close> of \<^verbatim>\<open>selectAdventureSkill\<close>, on the copied stats and flags.\<close>

definition applySkill ::
  "SkillType \<Rightarrow> real \<Rightarrow> real \<Rightarrow> real \<Rightarrow> PlayerStats \<times> SkillEffects \<Rightarrow> PlayerStats \<times> SkillEffects" where
  "applySkill t r1 r2 r3 pe =
     (case t of
        Risker \<Rightarrow>
          ((fst pe)\<lparr> PlayerStats.hp := Math_floor (PlayerStats.hp (fst pe) * 0.85),
                     PlayerStats.atk := Math_floor (PlayerStats.atk (fst pe) * 1.2) \<rparr>, snd pe)
      | LightningChain \<Rightarrow> (fst pe, (snd pe)\<lparr> lightningChainActive := True \<rparr>)
      | TruthLies \<Rightarrow> (fst pe, (snd pe)\<lparr> truthLiesActive := True \<rparr>)
      | Ramp \<Rightarrow>
          (reduceStat (statToReduce (statToDouble r1 r2) r3)
             (doubleStat (statToDouble r1 r2) (fst pe)),
           (snd pe)\<lparr> rampActive := True \<rparr>)
      | SkipCard \<Rightarrow> pe
      | MetalShield \<Rightarrow> pe
      | Dodge \<Rightarrow> pe)"

text \<open>\<open>generateEnemy\<close> stands for the imported generator, called at the current zone.\<close>

definition selectAdventureSkill ::
  "AdventureSkill \<Rightarrow> (real \<Rightarrow> Enemy) \<Rightarrow> real \<Rightarrow> real \<Rightarrow> real \<Rightarrow> GameState \<Rightarrow> GameState" where
  "selectAdventureSkill skill generateEnemy r1 r2 r3 state =
     (let enemy = generateEnemy (zone state);
          applied = applySkill (AdventureSkill.type skill) r1 r2 r3
                      (playerStats state, skillEffects (adventureSkills state));
          modifiedPlayerStats = fst applied;
          skillEffects' = snd applied
      in state\<lparr> currentEnemy := Some enemy,
                inCombat := True,
                playerStats := modifiedPlayerStats,
                combatLog := [Encounter (Enemy.name enemy)],
                adventureSkills := (adventureSkills state)
                  \<lparr> selectedSkill := Some skill,
                    showSelectionModal := False,
                    skillEffects := skillEffects'
                      \<lparr> skipCardUsed := False, metalShieldUsed := False,
                        dodgeUsed := False \<rparr> \<rparr> \<rparr>)"

definition skipAdventureSkills :: "(real \<Rightarrow> Enemy) \<Rightarrow> GameState \<Rightarrow> GameState" where
  "skipAdventureSkills generateEnemy state =
     (let enemy = generateEnemy (zone state)
      in state\<lparr> currentEnemy := Some enemy,
                inCombat := True,
                combatLog := [Encounter (Enemy.name enemy)],
                adventureSkills := (adventureSkills state)
                  \<lparr> selectedSkill := None,
                    showSelectionModal := False,
                    skillEffects := emptySkillEffects \<rparr> \<rparr>)"

definition useSkipCard :: "GameState \<Rightarrow> GameState" where
  "useSkipCard state =
     state\<lparr> adventureSkills := (adventureSkills state)
              \<lparr> skillEffects := (skillEffects (adventureSkills state))
                  \<lparr> skipCardUsed := True \<rparr> \<rparr> \<rparr>"

subsection \<open>attack\<close>

text \<open>\<^verbatim>\<open>state.adventureSkills.selectedSkill?.type\<close>\<close>

definition selectedType :: "GameState \<Rightarrow> SkillType option" where
  "selectedType state = map_option AdventureSkill.type (selectedSkill (adventureSkills state))"

text \<open>
  The per-category counters: \<^verbatim>\<open>if (category)\<close> holds for a string that is present and
  not empty; a missing entry is created as \<^verbatim>\<open>{ correct: 0, total: 0 }\<close>. For an inherited
  name with no entry of its own the read finds the inherited value, no entry is created,
  and the increments land on that value, outside the state.
\<close>

definition countAnswer ::
  "bool \<Rightarrow> string option \<Rightarrow> (string \<rightharpoonup> CategoryAccuracy) \<Rightarrow> (string \<rightharpoonup> CategoryAccuracy)" where
  "countAnswer hit category acc =
     (case category of
        None \<Rightarrow> acc
      | Some c \<Rightarrow>
          if c = [] then acc
          else if acc c = None \<and> c \<in> set objectPrototypeNames then acc
          else
            let entry = (case acc c of None \<Rightarrow> \<lparr> correct = 0, total = 0 \<rparr> | Some a \<Rightarrow> a)
            in if hit
               then acc(c \<mapsto> entry\<lparr> correct := correct entry + 1, total := total entry + 1 \<rparr>)
               else acc(c \<mapsto> entry\<lparr> total := total entry + 1 \<rparr>))"

text \<open>
  The value of \<^verbatim>\<open>damage\<close> in the hit branch:
  \<^verbatim>\<open>Math.max(1, atk - enemy.def)\<close>, then \<^verbatim>\<open>Math.floor(damage * 1.15)\<close> under lightning
  chain, the product being the binary64 one (100 gives 114).
\<close>

definition playerDamage :: "GameState \<Rightarrow> Enemy \<Rightarrow> real" where
  "playerDamage state e =
     (let damage = Math_max 1 (PlayerStats.atk (playerStats state) - Enemy.def e)
      in if lightningChainActive (skillEffects (adventureSkills state))
         then Math_floor (fl (damage * fl 1.15)) else damage)"

text \<open>
  The value of \<^verbatim>\<open>enemyDamage\<close> where the miss branch subtracts it:
  \<^verbatim>\<open>Math.max(1, enemy.atk - def)\<close>, then \<^verbatim>\<open>Math.floor(enemyDamage * 1.1)\<close> under
  lightning chain.
\<close>

definition enemyDamage :: "GameState \<Rightarrow> Enemy \<Rightarrow> real" where
  "enemyDamage state e =
     (let damage = Math_max 1 (Enemy.atk e - PlayerStats.def (playerStats state))
      in if lightningChainActive (skillEffects (adventureSkills state))
         then Math_floor (damage * 1.1) else damage)"

text \<open>
  The first part of the updater, for the current enemy \<open>e\<close>: the \<^verbatim>\<open>if (hit) ... else ...\<close>
  statement and the increment of \<^verbatim>\<open>totalQuestionsAnswered\<close> after it. The multiplier
  \<^verbatim>\<open>1 + current * 0.1\<close> is the binary64 value (a streak of 4 gives the double just below
  1.4).
\<close>

definition attackAnswer :: "bool \<Rightarrow> string option \<Rightarrow> Enemy \<Rightarrow> GameState \<Rightarrow> GameState" where
  "attackAnswer hit category e state =
     (if hit then
        let damage = playerDamage state e;
            current' = KnowledgeStreak.current (knowledgeStreak state) + 1;
            best' = (if current' > best (knowledgeStreak state) then current'
                     else best (knowledgeStreak state))
        in state\<lparr> currentEnemy := Some (e\<lparr> Enemy.hp := Math_max 0 (Enemy.hp e - damage) \<rparr>),
                  combatLog := combatLog state @ [YouDeal damage],
                  knowledgeStreak := (knowledgeStreak state)
                    \<lparr> KnowledgeStreak.current := current', best := best',
                      multiplier := fl (1 + fl (current' * fl 0.1)) \<rparr>,
                  statistics := (statistics state)
                    \<lparr> correctAnswers := correctAnswers (statistics state) + 1,
                      totalDamageDealt := totalDamageDealt (statistics state) + damage,
                      accuracyByCategory :=
                        countAnswer True category (accuracyByCategory (statistics state)),
                      totalQuestionsAnswered :=
                        totalQuestionsAnswered (statistics state) + 1 \<rparr> \<rparr>
      else
        let streak' = (knowledgeStreak state)
                        \<lparr> KnowledgeStreak.current := 0, multiplier := 1 \<rparr>
        in if dodgeUsed (skillEffects (adventureSkills state)) = False
              \<and> selectedType state = Some Dodge
           then
             state\<lparr> adventureSkills := (adventureSkills state)
                      \<lparr> skillEffects := (skillEffects (adventureSkills state))
                          \<lparr> dodgeUsed := True \<rparr> \<rparr>,
                    combatLog := combatLog state @ [YouDodge],
                    knowledgeStreak := streak',
                    statistics := (statistics state)
                      \<lparr> accuracyByCategory :=
                          countAnswer False category (accuracyByCategory (statistics state)),
                        totalQuestionsAnswered :=
                          totalQuestionsAnswered (statistics state) + 1 \<rparr> \<rparr>
           else
             let damage = enemyDamage state e
             in state\<lparr> playerStats := (playerStats state)
                         \<lparr> PlayerStats.hp :=
                             Math_max 0 (PlayerStats.hp (playerStats state) - damage) \<rparr>,
                       combatLog := combatLog state @ [EnemyDeals damage],
                       knowledgeStreak := streak',
                       statistics := (statistics state)
                         \<lparr> totalDamageTaken := totalDamageTaken (statistics state) + damage,
                           accuracyByCategory :=
                             countAnswer False category (accuracyByCategory (statistics state)),
                           totalQuestionsAnswered :=
                             totalQuestionsAnswered (statistics state) + 1 \<rparr> \<rparr>)"

text \<open>
  \<^verbatim>\<open>// Check if enemy is defeated\<close>: the block run when \<^verbatim>\<open>currentEnemy.hp <= 0\<close>. The
  products with the multiplier are the binary64 ones.
\<close>

definition attackVictory :: "GameState \<Rightarrow> GameState" where
  "attackVictory state =
     (let coinReward =
            Math_floor (fl ((10 + zone state * 2) * multiplier (knowledgeStreak state)));
          gemReward =
            Math_floor
              (fl ((1 + Math_floor (zone state / 5)) * multiplier (knowledgeStreak state)));
          zone' = zone state + 1
      in state\<lparr> coins := coins state + coinReward,
                gems := gems state + gemReward,
                zone := zone',
                inCombat := False,
                currentEnemy := None,
                combatLog := combatLog state @ [Victory coinReward gemReward],
                adventureSkills := emptyAdventureSkills,
                isPremium := (if zone' \<ge> 50 then True else isPremium state),
                statistics := (statistics state)
                  \<lparr> totalVictories := totalVictories (statistics state) + 1,
                    coinsEarned := coinsEarned (statistics state) + coinReward,
                    gemsEarned := gemsEarned (statistics state) + gemReward,
                    zonesReached := Math_max (zonesReached (statistics state)) zone' \<rparr> \<rparr>)"

definition attackCheckVictory :: "GameState \<Rightarrow> GameState" where
  "attackCheckVictory state =
     (case currentEnemy state of
        None \<Rightarrow> state
      | Some e \<Rightarrow> if Enemy.hp e \<le> 0 then attackVictory state else state)"

text \<open>
  \<^verbatim>\<open>// Check if player is defeated\<close>: the last statement of the updater. The product
  \<^verbatim>\<open>atk * 0.7\<close> is the binary64 one (90 gives 62).
\<close>

definition attackCheckDefeat :: "GameState \<Rightarrow> GameState" where
  "attackCheckDefeat state =
     (if PlayerStats.hp (playerStats state) \<le> 0 then
        if selectedType state = Some MetalShield
           \<and> \<not> metalShieldUsed (skillEffects (adventureSkills state))
        then
          state\<lparr> playerStats := (playerStats state)
                   \<lparr> PlayerStats.hp := 1,
                     PlayerStats.atk :=
                       Math_floor (fl (PlayerStats.atk (playerStats state) * fl 0.7)) \<rparr>,
                 adventureSkills := (adventureSkills state)
                   \<lparr> skillEffects := (skillEffects (adventureSkills state))
                       \<lparr> metalShieldUsed := True \<rparr> \<rparr>,
                 combatLog := combatLog state @ [MetalShieldActivated] \<rparr>
        else if \<not> hasUsedRevival state then
          state\<lparr> playerStats := (playerStats state)
                   \<lparr> PlayerStats.hp := maxHp (playerStats state) \<rparr>,
                 hasUsedRevival := True,
                 combatLog := combatLog state @ [Revived],
                 statistics := (statistics state)
                   \<lparr> revivals := revivals (statistics state) + 1 \<rparr> \<rparr>
        else
          state\<lparr> inCombat := False,
                 currentEnemy := None,
                 combatLog := combatLog state @ [Defeated],
                 statistics := (statistics state)
                   \<lparr> totalDeaths := totalDeaths (statistics state) + 1 \<rparr>,
                 adventureSkills := emptyAdventureSkills \<rparr>
      else state)"

text \<open>
  The updater of \<^verbatim>\<open>attack(hit, category)\<close>: nothing happens without a current enemy;
  otherwise the answer is applied, then the victory check, then the defeat check, each on
  the state the one before left.
\<close>

definition attack :: "bool \<Rightarrow> string option \<Rightarrow> GameState \<Rightarrow> GameState" where
  "attack hit category state =
     (case currentEnemy state of
        None \<Rightarrow> state
      | Some e \<Rightarrow> attackCheckDefeat (attackCheckVictory (attackAnswer hit category e state)))"

subsection \<open>Reset, modes, cheats, mining, exchange\<close>

definition resetGame :: "real \<Rightarrow> GameState" where
  "resetGame now = createInitialGameState now"

definition setGameMode :: "GameModeName \<Rightarrow> GameState \<Rightarrow> GameState" where
  "setGameMode mode state =
     state\<lparr> gameMode := (gameMode state)\<lparr> GameMode.current := mode \<rparr> \<rparr>"

definition toggleCheat :: "CheatKey \<Rightarrow> GameState \<Rightarrow> GameState" where
  "toggleCheat cheat state =
     state\<lparr> cheats :=
       (case cheat of
          InfiniteCoins \<Rightarrow> (cheats state)\<lparr> infiniteCoins := \<not> infiniteCoins (cheats state) \<rparr>
        | InfiniteGems \<Rightarrow> (cheats state)\<lparr> infiniteGems := \<not> infiniteGems (cheats state) \<rparr>
        | ObtainAnyItem \<Rightarrow> (cheats state)\<lparr> obtainAnyItem := \<not> obtainAnyItem (cheats state) \<rparr>) \<rparr>"

text \<open>\<open>r\<close> is the draw of \<^verbatim>\<open>isShinyNode\<close>; the coordinates are not used by the updater.\<close>

definition mineGem :: "real \<Rightarrow> GameState \<Rightarrow> GameState" where
  "mineGem r state =
     (if r < 0.05
      then state\<lparr> shinyGems := shinyGems state + 1,
                  mining := (mining state)
                    \<lparr> totalShinyGemsMined := totalShinyGemsMined (mining state) + 1 \<rparr>,
                  statistics := (statistics state)
                    \<lparr> shinyGemsEarned := shinyGemsEarned (statistics state) + 1 \<rparr> \<rparr>
      else state\<lparr> gems := gems state + 1,
                  mining := (mining state)
                    \<lparr> totalGemsMined := totalGemsMined (mining state) + 1 \<rparr>,
                  statistics := (statistics state)
                    \<lparr> gemsEarned := gemsEarned (statistics state) + 1 \<rparr> \<rparr>)"

definition exchangeShinyGems :: "real \<Rightarrow> GameState \<Rightarrow> GameState" where
  "exchangeShinyGems amount state =
     (if shinyGems state < amount then state
      else state\<lparr> shinyGems := shinyGems state - amount,
                  gems := gems state + (amount * 10) \<rparr>)"

definition discardItem :: "string \<Rightarrow> ItemKind \<Rightarrow> GameState \<Rightarrow> GameState" where
  "discardItem itemId kind state =
     (if kind = WeaponKind
      then state\<lparr> inventory := (inventory state)
                    \<lparr> Inventory.weapons :=
                        filter (\<lambda>w. Item.id w \<noteq> itemId) (Inventory.weapons (inventory state)) \<rparr> \<rparr>
      else state\<lparr> inventory := (inventory state)
                    \<lparr> Inventory.armor :=
                        filter (\<lambda>a. Item.id a \<noteq> itemId) (Inventory.armor (inventory state)) \<rparr> \<rparr>)"

subsection \<open>Relics\<close>

definition purchaseRelic :: "string \<Rightarrow> GameState \<Rightarrow> GameState" where
  "purchaseRelic relicId state =
     (case find (\<lambda>r. RelicItem.id r = relicId) (items (yojefMarket state)) of
        None \<Rightarrow> state
      | Some relic \<Rightarrow>
          if gems state < cost relic \<or> length (equippedRelics (inventory state)) \<ge> 5 then state
          else state\<lparr> gems := gems state - cost relic,
                      inventory := (inventory state)
                        \<lparr> relics := relics (inventory state) @ [relic],
                          equippedRelics := equippedRelics (inventory state) @ [relic] \<rparr>,
                      yojefMarket := (yojefMarket state)
                        \<lparr> items := filter (\<lambda>r. RelicItem.id r \<noteq> relicId)
                                     (items (yojefMarket state)) \<rparr> \<rparr>)"

text \<open>\<^verbatim>\<open>x ? x + n : undefined\<close>: a missing or zero value gives \<^verbatim>\<open>undefined\<close>.\<close>

definition bumpStat :: "real option \<Rightarrow> real \<Rightarrow> real option" where
  "bumpStat x n = (case x of None \<Rightarrow> None | Some v \<Rightarrow> if v = 0 then None else Some (v + n))"

definition relicLevelUp :: "RelicItem \<Rightarrow> RelicItem" where
  "relicLevelUp r =
     r\<lparr> RelicItem.level := RelicItem.level r + 1,
        RelicItem.upgradeCost := Math_floor (RelicItem.upgradeCost r * 1.5),
        RelicItem.baseAtk := bumpStat (RelicItem.baseAtk r) 22,
        RelicItem.baseDef := bumpStat (RelicItem.baseDef r) 15 \<rparr>"

definition upgradeRelic :: "string \<Rightarrow> GameState \<Rightarrow> GameState" where
  "upgradeRelic relicId state =
     (case find (\<lambda>r. RelicItem.id r = relicId) (relics (inventory state)) of
        None \<Rightarrow> state
      | Some relic \<Rightarrow>
          if gems state < RelicItem.upgradeCost relic then state
          else
            let updatedRelics =
                  map (\<lambda>r. if RelicItem.id r = relicId then relicLevelUp r else r)
                    (relics (inventory state));
                updatedEquippedRelics =
                  map (\<lambda>r. if RelicItem.id r = relicId
                            then (case find (\<lambda>ur. RelicItem.id ur = relicId) updatedRelics of
                                    Some ur \<Rightarrow> ur
                                  | None \<Rightarrow> r)
                            else r)
                    (equippedRelics (inventory state))
            in state\<lparr> gems := gems state - RelicItem.upgradeCost relic,
                      inventory := (inventory state)
                        \<lparr> relics := updatedRelics,
                          equippedRelics := updatedEquippedRelics \<rparr> \<rparr>)"

definition equipRelic :: "string \<Rightarrow> GameState \<Rightarrow> GameState" where
  "equipRelic relicId state =
     (case find (\<lambda>r. RelicItem.id r = relicId) (relics (inventory state)) of
        None \<Rightarrow> state
      | Some relic \<Rightarrow>
          if length (equippedRelics (inventory state)) \<ge> 5
             \<or> list_ex (\<lambda>r. RelicItem.id r = relicId) (equippedRelics (inventory state))
          then state
          else state\<lparr> inventory := (inventory state)
                        \<lparr> equippedRelics := equippedRelics (inventory state) @ [relic] \<rparr> \<rparr>)"

definition unequipRelic :: "string \<Rightarrow> GameState \<Rightarrow> GameState" where
  "unequipRelic relicId state =
     state\<lparr> inventory := (inventory state)
              \<lparr> equippedRelics :=
                  filter (\<lambda>r. RelicItem.id r \<noteq> relicId) (equippedRelics (inventory state)) \<rparr> \<rparr>"

definition sellRelic :: "string \<Rightarrow> GameState \<Rightarrow> GameState" where
  "sellRelic relicId state =
     state\<lparr> inventory := (inventory state)
              \<lparr> relics := filter (\<lambda>r. RelicItem.id r \<noteq> relicId) (relics (inventory state)),
                equippedRelics :=
                  filter (\<lambda>r. RelicItem.id r \<noteq> relicId) (equippedRelics (inventory state)) \<rparr> \<rparr>"

subsection \<open>Rewards, bulk operations, garden, settings, debug setters, menu skills\<close>

definition claimDailyReward :: "real \<Rightarrow> GameState \<Rightarrow> GameState" where
  "claimDailyReward now state =
     (case availableReward (dailyRewards state) of
        None \<Rightarrow> state
      | Some reward \<Rightarrow>
          state\<lparr> coins := coins state + DailyReward.coins reward,
                 gems := gems state + DailyReward.gems reward,
                 dailyRewards := (dailyRewards state)
                   \<lparr> availableReward := None,
                     lastClaimDate := Some now,
                     rewardHistory := rewardHistory (dailyRewards state)
                       @ [reward\<lparr> claimed := True, claimDate := Some now \<rparr>] \<rparr> \<rparr>)"

definition claimOfflineRewards :: "GameState \<Rightarrow> GameState" where
  "claimOfflineRewards state =
     state\<lparr> coins := coins state + offlineCoins (offlineProgress state),
            gems := gems state + offlineGems (offlineProgress state),
            offlineProgress := (offlineProgress state)
              \<lparr> offlineCoins := 0, offlineGems := 0, offlineTime := 0 \<rparr> \<rparr>"

definition bulkSell :: "string list \<Rightarrow> ItemKind \<Rightarrow> GameState \<Rightarrow> GameState" where
  "bulkSell itemIds kind state =
     (if kind = WeaponKind then
        let weaponsToSell =
              filter (\<lambda>w. Item.id w \<in> set itemIds
                           \<and> \<not> isCurrent (currentWeapon (inventory state)) (Item.id w))
                (Inventory.weapons (inventory state));
            totalValue = foldl (\<lambda>sum w. sum + sellPrice w) 0 weaponsToSell
        in state\<lparr> coins := coins state + totalValue,
                  inventory := (inventory state)
                    \<lparr> Inventory.weapons :=
                        filter (\<lambda>w. Item.id w \<notin> set itemIds
                                     \<or> isCurrent (currentWeapon (inventory state)) (Item.id w))
                          (Inventory.weapons (inventory state)) \<rparr> \<rparr>
      else
        let armorToSell =
              filter (\<lambda>a. Item.id a \<in> set itemIds
                           \<and> \<not> isCurrent (currentArmor (inventory state)) (Item.id a))
                (Inventory.armor (inventory state));
            totalValue = foldl (\<lambda>sum a. sum + sellPrice a) 0 armorToSell
        in state\<lparr> coins := coins state + totalValue,
                  inventory := (inventory state)
                    \<lparr> Inventory.armor :=
                        filter (\<lambda>a. Item.id a \<notin> set itemIds
                                     \<or> isCurrent (currentArmor (inventory state)) (Item.id a))
                          (Inventory.armor (inventory state)) \<rparr> \<rparr>)"

definition bulkUpgrade :: "string list \<Rightarrow> ItemKind \<Rightarrow> GameState \<Rightarrow> GameState" where
  "bulkUpgrade itemIds kind state =
     (if kind = WeaponKind then
        let weaponsToUpgrade =
              filter (\<lambda>w. Item.id w \<in> set itemIds) (Inventory.weapons (inventory state));
            totalCost = foldl (\<lambda>sum w. sum + Item.upgradeCost w) 0 weaponsToUpgrade
        in if gems state < totalCost then state
           else state\<lparr> gems := gems state - totalCost,
                       inventory := (inventory state)
                         \<lparr> Inventory.weapons :=
                             map (\<lambda>w. if Item.id w \<in> set itemIds then levelUp w else w)
                               (Inventory.weapons (inventory state)) \<rparr> \<rparr>
      else
        let armorToUpgrade =
              filter (\<lambda>a. Item.id a \<in> set itemIds) (Inventory.armor (inventory state));
            totalCost = foldl (\<lambda>sum a. sum + Item.upgradeCost a) 0 armorToUpgrade
        in if gems state < totalCost then state
           else state\<lparr> gems := gems state - totalCost,
                       inventory := (inventory state)
                         \<lparr> Inventory.armor :=
                             map (\<lambda>a. if Item.id a \<in> set itemIds then levelUp a else a)
                               (Inventory.armor (inventory state)) \<rparr> \<rparr>)"

definition plantSeed :: "real \<Rightarrow> GameState \<Rightarrow> GameState" where
  "plantSeed now state =
     (if coins state < seedCost (gardenOfGrowth state) \<or> isPlanted (gardenOfGrowth state)
      then state
      else state\<lparr> coins := coins state - seedCost (gardenOfGrowth state),
                  gardenOfGrowth := (gardenOfGrowth state)
                    \<lparr> isPlanted := True, plantedAt := Some now, lastWatered := Some now,
                      waterHoursRemaining := 24 \<rparr> \<rparr>)"

definition buyWater :: "real \<Rightarrow> GameState \<Rightarrow> GameState" where
  "buyWater hours state =
     (let cost' = (hours / 24) * waterCost (gardenOfGrowth state)
      in if coins state < cost' then state
         else state\<lparr> coins := coins state - cost',
                     gardenOfGrowth := (gardenOfGrowth state)
                       \<lparr> waterHoursRemaining :=
                           waterHoursRemaining (gardenOfGrowth state) + hours \<rparr> \<rparr>)"

text \<open>\<^verbatim>\<open>{ ...state.settings, ...newSettings }\<close>\<close>

definition mergeSettings :: "Settings \<Rightarrow> PartialSettings \<Rightarrow> Settings" where
  "mergeSettings old new =
     \<lparr> Settings.colorblindMode =
         (case PartialSettings.colorblindMode new of
            None \<Rightarrow> Settings.colorblindMode old | Some v \<Rightarrow> v),
       Settings.darkMode =
         (case PartialSettings.darkMode new of None \<Rightarrow> Settings.darkMode old | Some v \<Rightarrow> v),
       Settings.language =
         (case PartialSettings.language new of None \<Rightarrow> Settings.language old | Some v \<Rightarrow> v),
       Settings.notifications =
         (case PartialSettings.notifications new of
            None \<Rightarrow> Settings.notifications old | Some v \<Rightarrow> v) \<rparr>"

definition updateSettings :: "PartialSettings \<Rightarrow> GameState \<Rightarrow> GameState" where
  "updateSettings newSettings state =
     state\<lparr> settings := mergeSettings (settings state) newSettings \<rparr>"

definition addCoins :: "real \<Rightarrow> GameState \<Rightarrow> GameState" where
  "addCoins amount state = state\<lparr> coins := coins state + amount \<rparr>"

definition addGems :: "real \<Rightarrow> GameState \<Rightarrow> GameState" where
  "addGems amount state = state\<lparr> gems := gems state + amount \<rparr>"

definition teleportToZone :: "real \<Rightarrow> GameState \<Rightarrow> GameState" where
  "teleportToZone z state = state\<lparr> zone := Math_max 1 z \<rparr>"

definition setExperience :: "real \<Rightarrow> GameState \<Rightarrow> GameState" where
  "setExperience xp state =
     state\<lparr> progression := (progression state)\<lparr> experience := Math_max 0 xp \<rparr> \<rparr>"

definition skillNames :: "MenuSkillType \<Rightarrow> string" where
  "skillNames t =
     (case t of CoinVacuum \<Rightarrow> ''Coin Vacuum'' | Treasurer \<Rightarrow> ''Treasurer''
      | XpSurge \<Rightarrow> ''XP Surge'' | LuckGem \<Rightarrow> ''Luck Gem'' | Enchanter \<Rightarrow> ''Enchanter'')"

definition skillDescriptions :: "MenuSkillType \<Rightarrow> string" where
  "skillDescriptions t =
     (case t of
        CoinVacuum \<Rightarrow> ''Get 15 free coins per minute of play time''
      | Treasurer \<Rightarrow> ''Guarantees next chest opened is epic or better''
      | XpSurge \<Rightarrow> ''Gives 300% XP gains for 24 hours''
      | LuckGem \<Rightarrow> ''All gems mined for 1 hour are shiny gems''
      | Enchanter \<Rightarrow> ''Epic+ drops have 80% chance to be enchanted'')"

text \<open>
  \<open>randomType\<close> is the entry of \<^verbatim>\<open>skillTypes\<close> picked by the random index, \<open>newId\<close>
  the string made from \<^verbatim>\<open>Math.random().toString(36)\<close>.
\<close>

definition rollSkill :: "MenuSkillType \<Rightarrow> string \<Rightarrow> real \<Rightarrow> GameState \<Rightarrow> GameState" where
  "rollSkill randomType newId now state =
     (if coins state < 100 then state
      else
        let duration' = (if randomType = LuckGem then 1
                         else if randomType = Treasurer then 0.1 else 24);
            newSkill =
              \<lparr> MenuSkill.id = newId, MenuSkill.name = skillNames randomType,
                MenuSkill.description = skillDescriptions randomType,
                duration = duration', activatedAt = now,
                expiresAt = now + duration' * 60 * 60 * 1000,
                MenuSkill.type = randomType \<rparr>
        in state\<lparr> coins := coins state - 100,
                  skills := (skills state)
                    \<lparr> activeMenuSkill := Some newSkill, lastRollTime := Some now \<rparr> \<rparr>)"

subsection \<open>The dispatcher and the catalogue of operations\<close>

text \<open>\<^verbatim>\<open>setGameState(prev => !prev ? prev : updater(prev))\<close>\<close>

definition updateGameState ::
  "(GameState \<Rightarrow> GameState) \<Rightarrow> GameState option \<Rightarrow> GameState option" where
  "updateGameState updater prevState =
     (case prevState of None \<Rightarrow> None | Some s \<Rightarrow> Some (updater s))"

text \<open>
  One constructor for each function the hook returns, with the arguments of the call and
  the values its random draws, clock reads and generator calls produce.
  \<^verbatim>\<open>generateCheatItem\<close>, \<^verbatim>\<open>upgradeSkill\<close> and \<^verbatim>\<open>prestige\<close> have empty bodies.
\<close>

datatype Operation =
    EquipWeapon Item
  | EquipArmor Item
  | UpgradeWeapon string
  | UpgradeArmor string
  | SellWeapon string
  | SellArmor string
  | UpgradeResearch "real \<Rightarrow> real"
  | OpenChest real "real list" real real real
      "bool \<Rightarrow> Rarity option \<Rightarrow> Item" "bool \<Rightarrow> Rarity option \<Rightarrow> Item"
  | PurchaseMythical real real
      "bool \<Rightarrow> Rarity option \<Rightarrow> Item" "bool \<Rightarrow> Rarity option \<Rightarrow> Item"
  | StartCombat "AdventureSkill list"
  | Attack bool "string option"
  | ResetGame real
  | SetGameMode GameModeName
  | ToggleCheat CheatKey
  | GenerateCheatItem
  | MineGem real
  | ExchangeShinyGems real
  | DiscardItem string ItemKind
  | PurchaseRelic string
  | UpgradeRelic string
  | EquipRelic string
  | UnequipRelic string
  | SellRelic string
  | ClaimDailyReward real
  | UpgradeSkill string
  | Prestige
  | ClaimOfflineRewards
  | BulkSell "string list" ItemKind
  | BulkUpgrade "string list" ItemKind
  | PlantSeed real
  | BuyWater real
  | UpdateSettings PartialSettings
  | AddCoins real
  | AddGems real
  | TeleportToZone real
  | SetExperience real
  | RollSkill MenuSkillType string real
  | SelectAdventureSkill AdventureSkill "real \<Rightarrow> Enemy" real real real
  | SkipAdventureSkills "real \<Rightarrow> Enemy"
  | UseSkipCard

text \<open>The state an operation commits when the committed state is \<open>state\<close>.\<close>

fun perform :: "Operation \<Rightarrow> GameState \<Rightarrow> GameState" where
  "perform (EquipWeapon w) state = equipWeapon w state"
| "perform (EquipArmor a) state = equipArmor a state"
| "perform (UpgradeWeapon i) state = upgradeWeapon i state"
| "perform (UpgradeArmor i) state = upgradeArmor i state"
| "perform (SellWeapon i) state = sellWeapon i state"
| "perform (SellArmor i) state = sellArmor i state"
| "perform (UpgradeResearch f) state = upgradeResearch f state"
| "perform (OpenChest c ws r1 r2 r3 gw ga) state = openChest c ws r1 r2 r3 gw ga state"
| "perform (PurchaseMythical c r gw ga) state = purchaseMythical c r gw ga state"
| "perform (StartCombat sh) state = startCombat sh state"
| "perform (Attack hit category) state = attack hit category state"
| "perform (ResetGame now) state = resetGame now"
| "perform (SetGameMode m) state = setGameMode m state"
| "perform (ToggleCheat c) state = toggleCheat c state"
| "perform GenerateCheatItem state = state"
| "perform (MineGem r) state = mineGem r state"
| "perform (ExchangeShinyGems n) state = exchangeShinyGems n state"
| "perform (DiscardItem i k) state = discardItem i k state"
| "perform (PurchaseRelic i) state = purchaseRelic i state"
| "perform (UpgradeRelic i) state = upgradeRelic i state"
| "perform (EquipRelic i) state = equipRelic i state"
| "perform (UnequipRelic i) state = unequipRelic i state"
| "perform (SellRelic i) state = sellRelic i state"
| "perform (ClaimDailyReward now) state = claimDailyReward now state"
| "perform (UpgradeSkill i) state = state"
| "perform Prestige state = state"
| "perform ClaimOfflineRewards state = claimOfflineRewards state"
| "perform (BulkSell is k) state = bulkSell is k state"
| "perform (BulkUpgrade is k) state = bulkUpgrade is k state"
| "perform (PlantSeed now) state = plantSeed now state"
| "perform (BuyWater h) state = buyWater h state"
| "perform (UpdateSettings n) state = updateSettings n state"
| "perform (AddCoins n) state = addCoins n state"
| "perform (AddGems n) state = addGems n state"
| "perform (TeleportToZone z) state = teleportToZone z state"
| "perform (SetExperience x) state = setExperience x state"
| "perform (RollSkill t i now) state = rollSkill t i now state"
| "perform (SelectAdventureSkill sk g r1 r2 r3) state = selectAdventureSkill sk g r1 r2 r3 state"
| "perform (SkipAdventureSkills g) state = skipAdventureSkills g state"
| "perform UseSkipCard state = useSkipCard state"

text \<open>
  The committed state after a call: \<^verbatim>\<open>resetGame\<close> sets the state directly, the
  functions with empty bodies leave it alone, every other one goes through
  \<^verbatim>\<open>updateGameState\<close>.
\<close>

definition dispatch :: "Operation \<Rightarrow> GameState option \<Rightarrow> GameState option" where
  "dispatch op committed =
     (case op of
        ResetGame now \<Rightarrow> Some (resetGame now)
      | GenerateCheatItem \<Rightarrow> committed
      | UpgradeSkill i \<Rightarrow> committed
      | Prestige \<Rightarrow> committed
      | _ \<Rightarrow> updateGameState (perform op) committed)"

text \<open>
  The committed state after a sequence of calls, oldest first. The states the hook can
  commit when no snapshot was stored are the values of \<open>run ops (createInitialGameState now)\<close>.
\<close>

definition run :: "Operation list \<Rightarrow> GameState \<Rightarrow> GameState" where
  "run ops state = foldl (\<lambda>s op. perform op s) state ops"


subsection \<open>The metal shield within one combat\<close>

text \<open>
  The shield cannot fire in \<open>state\<close>: the selected skill is not the metal shield, or its
  flag is used up.
\<close>

definition shieldSpent :: "GameState \<Rightarrow> bool" where
  "shieldSpent state =
     (metalShieldUsed (skillEffects (adventureSkills state))
      \<or> selectedType state \<noteq> Some MetalShield)"


subsection \<open>Classes of operations\<close>

text \<open>The full reset.\<close>

fun isReset :: "Operation \<Rightarrow> bool" where
  "isReset (ResetGame now) = True"
| "isReset op = False"

text \<open>
  The calls whose amounts are not negative: the amount of \<^verbatim>\<open>addCoins\<close>, \<^verbatim>\<open>addGems\<close>
  and \<^verbatim>\<open>exchangeShinyGems\<close>, the draw behind the gem bonus of a chest, and the sell price
  of the item the generators make for \<^verbatim>\<open>openChest\<close> and \<^verbatim>\<open>purchaseMythical\<close>.
\<close>

fun nonNegativeInputs :: "Operation \<Rightarrow> bool" where
  "nonNegativeInputs (AddCoins n) = (0 \<le> n)"
| "nonNegativeInputs (AddGems n) = (0 \<le> n)"
| "nonNegativeInputs (ExchangeShinyGems n) = (0 \<le> n)"
| "nonNegativeInputs (OpenChest c ws r1 r2 r3 gw ga) =
     (0 \<le> r3 \<and> 0 \<le> sellPrice (gw False (selectRarity ws r1))
      \<and> 0 \<le> sellPrice (ga False (selectRarity ws r1)))"
| "nonNegativeInputs (PurchaseMythical c r gw ga) =
     (0 \<le> sellPrice (gw False (Some Mythical)) \<and> 0 \<le> sellPrice (ga False (Some Mythical)))"
| "nonNegativeInputs op = True"

text \<open>The selection of the ramp skill with hp as the stat it doubles.\<close>

fun doublesHp :: "Operation \<Rightarrow> bool" where
  "doublesHp (SelectAdventureSkill sk g r1 r2 r3) =
     (AdventureSkill.type sk = Ramp \<and> statToDouble r1 r2 = HpStat)"
| "doublesHp op = False"

subsection \<open>Invariants of the reachable states\<close>

text \<open>
  What keeps the three currency counters from going below zero: the counters themselves,
  a zone of at least 1 and a streak that is not negative (the victory rewards), the sell
  prices of the owned weapons and armor, the offline amounts, and no daily reward on
  offer (no operation of the hook sets one).
\<close>

definition solvent :: "GameState \<Rightarrow> bool" where
  "solvent state =
     (0 \<le> coins state \<and> 0 \<le> gems state \<and> 0 \<le> shinyGems state
      \<and> 1 \<le> zone state
      \<and> 0 \<le> KnowledgeStreak.current (knowledgeStreak state)
      \<and> 0 \<le> multiplier (knowledgeStreak state)
      \<and> list_all (\<lambda>w. 0 \<le> sellPrice w) (Inventory.weapons (inventory state))
      \<and> list_all (\<lambda>a. 0 \<le> sellPrice a) (Inventory.armor (inventory state))
      \<and> 0 \<le> offlineCoins (offlineProgress state)
      \<and> 0 \<le> offlineGems (offlineProgress state)
      \<and> availableReward (dailyRewards state) = None)"

text \<open>The player's hp within the maximum, and a maximum of at least 1.\<close>

definition hpBounded :: "GameState \<Rightarrow> bool" where
  "hpBounded state =
     (1 \<le> maxHp (playerStats state)
      \<and> PlayerStats.hp (playerStats state) \<le> maxHp (playerStats state))"

subsection \<open>Loading a stored snapshot\<close>

text \<open>
  \<^verbatim>\<open>loadGameState\<close> works on untyped objects: the value of \<^verbatim>\<open>JSON.parse\<close> can have any
  shape. A JavaScript value is a \<open>json\<close>; an object is the list of its properties, read
  with \<^const>\<open>map_of\<close> (the order of the keys is not modelled), and a \<^verbatim>\<open>Date\<close> is \<open>JDate\<close>
  of its time value.
\<close>

datatype json =
    JNull
  | JBool bool
  | JNum real
  | JStr string
  | JDate real
  | JArr "json list"
  | JObj "(string \<times> json) list"

text \<open>The decimal digits of an array index, as a property name.\<close>

function indexKey :: "nat \<Rightarrow> string" where
  "indexKey n =
     (if n < 10 then [''0123456789'' ! n]
      else indexKey (n div 10) @ [''0123456789'' ! (n mod 10)])"
  by pat_completeness auto
termination
  by (relation "measure (\<lambda>n. n)") auto

declare indexKey.simps [simp del]

text \<open>
  The properties copied by the object spread \<^verbatim>\<open>...v\<close>: those of an object, the indexed
  entries of an array or of a string, none for \<^verbatim>\<open>undefined\<close> (\<^const>\<open>None\<close>), \<^verbatim>\<open>null\<close>,
  a boolean, a number or a date.
\<close>

fun spreadProps :: "json option \<Rightarrow> (string \<times> json) list" where
  "spreadProps (Some (JObj kvs)) = kvs"
| "spreadProps (Some (JArr xs)) = map (\<lambda>i. (indexKey i, xs ! i)) [0..<length xs]"
| "spreadProps (Some (JStr s)) = map (\<lambda>i. (indexKey i, JStr [s ! i])) [0..<length s]"
| "spreadProps v = []"

text \<open>
  The property read \<^verbatim>\<open>parsedState.key\<close> for a key that is neither an index nor
  \<^verbatim>\<open>length\<close>: \<open>Inl ()\<close> is the \<^verbatim>\<open>TypeError\<close> of reading a property of \<^verbatim>\<open>null\<close>,
  \<open>Inr None\<close> is \<^verbatim>\<open>undefined\<close>.
\<close>

fun getProp :: "json \<Rightarrow> string \<Rightarrow> unit + json option" where
  "getProp JNull key = Inl ()"
| "getProp (JObj kvs) key = Inr (map_of kvs key)"
| "getProp v key = Inr None"

text \<open>
  \<^verbatim>\<open>createInitialGameState()\<close> as an object. \<open>achievements\<close> and \<open>playerTags\<close> are the
  values of the imported initialisers, \<open>now\<close> is the clock.
\<close>

definition initialSkillEffectsJson :: json where
  "initialSkillEffectsJson =
     JObj [(''skipCardUsed'', JBool False), (''metalShieldUsed'', JBool False),
           (''dodgeUsed'', JBool False), (''truthLiesActive'', JBool False),
           (''lightningChainActive'', JBool False), (''rampActive'', JBool False)]"

definition initialAdventureSkillsProps :: "(string \<times> json) list" where
  "initialAdventureSkillsProps =
     [(''selectedSkill'', JNull), (''availableSkills'', JArr []),
      (''showSelectionModal'', JBool False), (''skillEffects'', initialSkillEffectsJson)]"

definition initialSkillsProps :: "real \<Rightarrow> (string \<times> json) list" where
  "initialSkillsProps now =
     [(''activeMenuSkill'', JNull), (''lastRollTime'', JNull),
      (''playTimeThisSession'', JNum 0), (''sessionStartTime'', JDate now)]"

definition createInitialGameStateJson :: "json \<Rightarrow> json \<Rightarrow> real \<Rightarrow> (string \<times> json) list" where
  "createInitialGameStateJson achievements playerTags now =
     [(''coins'', JNum 100), (''gems'', JNum 0), (''shinyGems'', JNum 0), (''zone'', JNum 1),
      (''playerStats'',
         JObj [(''hp'', JNum 100), (''maxHp'', JNum 100), (''atk'', JNum 20),
               (''def'', JNum 10), (''baseAtk'', JNum 20), (''baseDef'', JNum 10),
               (''baseHp'', JNum 100)]),
      (''inventory'',
         JObj [(''weapons'', JArr []), (''armor'', JArr []), (''relics'', JArr []),
               (''currentWeapon'', JNull), (''currentArmor'', JNull),
               (''equippedRelics'', JArr [])]),
      (''currentEnemy'', JNull), (''inCombat'', JBool False), (''combatLog'', JArr []),
      (''research'',
         JObj [(''level'', JNum 0), (''totalSpent'', JNum 0),
               (''availableUpgrades'', JArr [JStr ''atk'', JStr ''def'', JStr ''hp''])]),
      (''isPremium'', JBool False),
      (''achievements'', achievements),
      (''collectionBook'',
         JObj [(''weapons'', JObj []), (''armor'', JObj []), (''totalWeaponsFound'', JNum 0),
               (''totalArmorFound'', JNum 0),
               (''rarityStats'',
                  JObj [(''common'', JNum 0), (''rare'', JNum 0), (''epic'', JNum 0),
                        (''legendary'', JNum 0), (''mythical'', JNum 0)])]),
      (''knowledgeStreak'',
         JObj [(''current'', JNum 0), (''best'', JNum 0), (''multiplier'', JNum 1)]),
      (''gameMode'',
         JObj [(''current'', JStr ''normal''), (''speedModeActive'', JBool False),
               (''survivalLives'', JNum 3), (''maxSurvivalLives'', JNum 3),
               (''timeAttackScore'', JNum 0), (''timeAttackTimeLeft'', JNum 60),
               (''bossProgress'', JNum 0)]),
      (''statistics'',
         JObj [(''totalQuestionsAnswered'', JNum 0), (''correctAnswers'', JNum 0),
               (''totalPlayTime'', JNum 0), (''zonesReached'', JNum 1),
               (''itemsCollected'', JNum 0), (''coinsEarned'', JNum 0),
               (''gemsEarned'', JNum 0), (''shinyGemsEarned'', JNum 0),
               (''chestsOpened'', JNum 0), (''accuracyByCategory'', JObj []),
               (''sessionStartTime'', JDate now), (''totalDeaths'', JNum 0),
               (''totalVictories'', JNum 0), (''longestStreak'', JNum 0),
               (''fastestVictory'', JNum 0), (''totalDamageDealt'', JNum 0),
               (''totalDamageTaken'', JNum 0), (''itemsUpgraded'', JNum 0),
               (''itemsSold'', JNum 0), (''totalResearchSpent'', JNum 0),
               (''averageAccuracy'', JNum 0), (''revivals'', JNum 0)]),
      (''cheats'',
         JObj [(''infiniteCoins'', JBool False), (''infiniteGems'', JBool False),
               (''obtainAnyItem'', JBool False)]),
      (''mining'', JObj [(''totalGemsMined'', JNum 0), (''totalShinyGemsMined'', JNum 0)]),
      (''yojefMarket'',
         JObj [(''items'', JArr []), (''lastRefresh'', JDate now),
               (''nextRefresh'', JDate (now + 24 * 60 * 60 * 1000))]),
      (''playerTags'', playerTags),
      (''dailyRewards'',
         JObj [(''lastClaimDate'', JNull), (''currentStreak'', JNum 0), (''maxStreak'', JNum 0),
               (''availableReward'', JNull), (''rewardHistory'', JArr [])]),
      (''progression'',
         JObj [(''level'', JNum 1), (''experience'', JNum 0), (''experienceToNext'', JNum 100),
               (''skillPoints'', JNum 0), (''unlockedSkills'', JArr []),
               (''prestigeLevel'', JNum 0), (''prestigePoints'', JNum 0),
               (''masteryLevels'', JObj [])]),
      (''offlineProgress'',
         JObj [(''lastSaveTime'', JDate now), (''offlineCoins'', JNum 0),
               (''offlineGems'', JNum 0), (''offlineTime'', JNum 0),
               (''maxOfflineHours'', JNum 24)]),
      (''gardenOfGrowth'',
         JObj [(''isPlanted'', JBool False), (''plantedAt'', JNull), (''lastWatered'', JNull),
               (''waterHoursRemaining'', JNum 0), (''growthCm'', JNum 0),
               (''totalGrowthBonus'', JNum 0), (''seedCost'', JNum 1000),
               (''waterCost'', JNum 500), (''maxGrowthCm'', JNum 100)]),
      (''settings'',
         JObj [(''colorblindMode'', JBool False), (''darkMode'', JBool True),
               (''language'', JStr ''en''), (''notifications'', JBool True)]),
      (''hasUsedRevival'', JBool False),
      (''skills'', JObj (initialSkillsProps now)),
      (''adventureSkills'', JObj initialAdventureSkillsProps)]"

text \<open>The sub-object \<open>key\<close> of a freshly made initial state, for the spread \<^verbatim>\<open>...createInitialGameState().key\<close>.\<close>

definition initialSub :: "json \<Rightarrow> json \<Rightarrow> real \<Rightarrow> string \<Rightarrow> json option" where
  "initialSub achievements playerTags now key =
     map_of (createInitialGameStateJson achievements playerTags now) key"

text \<open>
  What \<^verbatim>\<open>AsyncStorage.getItem\<close> and \<^verbatim>\<open>JSON.parse\<close> give: nothing stored (\<^verbatim>\<open>null\<close> or
  the empty string), a string that does not parse, or the parsed value.
\<close>

datatype Stored = NothingStored | Unparsable | Parsed json

text \<open>
  The object literal \<open>completeState\<close>. \<^verbatim>\<open>createInitialGameState()\<close> is called three times,
  at the clock values \<open>n1\<close>, \<open>n2\<close>, \<open>n3\<close> (for the top level, for \<^verbatim>\<open>skills\<close> and for
  \<^verbatim>\<open>adventureSkills\<close>). Reading \<^verbatim>\<open>parsedState.skills\<close> throws when \<open>parsedState\<close> is
  \<^verbatim>\<open>null\<close>; the result is then \<^const>\<open>None\<close>.
\<close>

definition completeState ::
  "json \<Rightarrow> json \<Rightarrow> real \<Rightarrow> real \<Rightarrow> real \<Rightarrow> json \<Rightarrow> (string \<times> json) list option" where
  "completeState achievements playerTags n1 n2 n3 parsedState =
     (case getProp parsedState ''skills'' of
        Inl u \<Rightarrow> None
      | Inr persistedSkills \<Rightarrow>
          (case getProp parsedState ''adventureSkills'' of
             Inl u \<Rightarrow> None
           | Inr persistedAdventureSkills \<Rightarrow>
               Some
                 (AList.update ''adventureSkills''
                    (JObj (AList.merge
                             (spreadProps (initialSub achievements playerTags n3 ''adventureSkills''))
                             (spreadProps persistedAdventureSkills)))
                    (AList.update ''skills''
                       (JObj (AList.merge
                                (spreadProps (initialSub achievements playerTags n2 ''skills''))
                                (spreadProps persistedSkills)))
                       (AList.merge (createInitialGameStateJson achievements playerTags n1)
                          (spreadProps (Some parsedState)))))))"

text \<open>
  The state \<^verbatim>\<open>loadGameState\<close> sets: the initial state when nothing is stored or when
  the \<^verbatim>\<open>try\<close> block throws, the completed state otherwise. With nothing stored, or a
  string that does not parse, the initial state comes from the first call of
  \<^verbatim>\<open>createInitialGameState()\<close>, at clock \<open>n1\<close>. When the parsed value is \<^verbatim>\<open>null\<close>, two
  calls have been made before \<^verbatim>\<open>parsedState.skills\<close> throws, and the \<^verbatim>\<open>catch\<close> block
  makes the third, at clock \<open>n3\<close>.
\<close>

definition loadGameState ::
  "json \<Rightarrow> json \<Rightarrow> real \<Rightarrow> real \<Rightarrow> real \<Rightarrow> Stored \<Rightarrow> (string \<times> json) list" where
  "loadGameState achievements playerTags n1 n2 n3 savedState =
     (case savedState of
        NothingStored \<Rightarrow> createInitialGameStateJson achievements playerTags n1
      | Unparsable \<Rightarrow> createInitialGameStateJson achievements playerTags n1
      | Parsed parsedState \<Rightarrow>
          (case completeState achievements playerTags n1 n2 n3 parsedState of
             None \<Rightarrow> createInitialGameStateJson achievements playerTags n3
           | Some merged \<Rightarrow> merged))"

text \<open>
  The merge in the words of the specification, for comparison with \<open>completeState\<close>: a
  deep merge with the defaults underneath and the persisted values on top. Where both
  sides are objects it keeps every key of either side and merges the values under a
  shared key in the same way; anywhere else the persisted value wins.
\<close>

fun deepMerge :: "json \<Rightarrow> json \<Rightarrow> json" where
  "deepMerge (JObj defaults) (JObj persisted) =
     JObj (map (\<lambda>(k, d). (k, case map_of persisted k of
                                 None \<Rightarrow> d
                               | Some p \<Rightarrow> deepMerge d p)) defaults
           @ filter (\<lambda>(k, p). map_of defaults k = None) persisted)"
| "deepMerge d p = p"

subsection \<open>Example values\<close>

text \<open>Concrete items and states at which the theorems below are evaluated.\<close>

definition exampleWeapon :: Item where
  "exampleWeapon =
     \<lparr> Item.id = ''w1'', Item.name = ''Sword'', rarity = Common, Item.level = 1,
       Item.upgradeCost = 5, sellPrice = 3 \<rparr>"

definition exampleArmor :: Item where
  "exampleArmor =
     \<lparr> Item.id = ''a1'', Item.name = ''Plate'', rarity = Rare, Item.level = 1,
       Item.upgradeCost = 5, sellPrice = 4 \<rparr>"

definition exampleRelic :: RelicItem where
  "exampleRelic =
     \<lparr> RelicItem.id = ''r1'', RelicItem.name = ''Idol'', cost = 20, RelicItem.level = 1,
       RelicItem.upgradeCost = 5, RelicItem.baseAtk = Some 30, RelicItem.baseDef = None \<rparr>"

text \<open>The initial state with 100 gems and one weapon, armor and relic, all equipped.\<close>

definition equippedState :: GameState where
  "equippedState =
     (createInitialGameState 0)
       \<lparr> gems := 100,
         inventory :=
           \<lparr> Inventory.weapons = [exampleWeapon], Inventory.armor = [exampleArmor],
             relics = [exampleRelic], currentWeapon = Some exampleWeapon,
             currentArmor = Some exampleArmor, equippedRelics = [exampleRelic] \<rparr> \<rparr>"



text \<open>
  A fight with the metal shield selected against an enemy that deals 90 damage on every
  miss, with 5 hp left.
\<close>

definition metalShieldSkill :: AdventureSkill where
  "metalShieldSkill =
     \<lparr> AdventureSkill.id = ''metal_shield'', AdventureSkill.name = ''Metal Shield'',
       AdventureSkill.description =
         ''If you are about to die, auto sacrifice 30% ATK to just cancel damage taken'',
       AdventureSkill.type = MetalShield \<rparr>"

definition strongEnemy :: Enemy where
  "strongEnemy = \<lparr> Enemy.name = ''Ogre'', Enemy.hp = 500, Enemy.atk = 100, Enemy.def = 5 \<rparr>"

definition shieldState :: GameState where
  "shieldState =
     (createInitialGameState 0)
       \<lparr> playerStats := (playerStats (createInitialGameState 0))\<lparr> PlayerStats.hp := 5 \<rparr>,
         currentEnemy := Some strongEnemy, inCombat := True,
         adventureSkills := emptyAdventureSkills\<lparr> selectedSkill := Some metalShieldSkill \<rparr> \<rparr>"

text \<open>Three skills of the catalogue, and a generator that always makes the same enemy.\<close>

definition dodgeSkill :: AdventureSkill where
  "dodgeSkill =
     \<lparr> AdventureSkill.id = ''dodge'', AdventureSkill.name = ''Dodge'',
       AdventureSkill.description = ''Don't take damage from the first wrong answer'',
       AdventureSkill.type = Dodge \<rparr>"


definition rampSkill :: AdventureSkill where
  "rampSkill =
     \<lparr> AdventureSkill.id = ''ramp'', AdventureSkill.name = ''Ramp'',
       AdventureSkill.description = ''A random stat is doubled but another is reduced by 40%'',
       AdventureSkill.type = Ramp \<rparr>"

definition ogres :: "real \<Rightarrow> Enemy" where
  "ogres z = strongEnemy"


text \<open>A snapshot written before the adventure skills existed.\<close>

definition oldSnapshot :: json where
  "oldSnapshot =
     JObj [(''coins'', JNum 5), (''zone'', JNum 7),
           (''skills'', JObj [(''playTimeThisSession'', JNum 42)])]"



text \<open>A snapshot whose \<^verbatim>\<open>skillEffects\<close> holds one flag only.\<close>

definition partialEffectsSnapshot :: json where
  "partialEffectsSnapshot =
     JObj [(''adventureSkills'',
              JObj [(''skillEffects'', JObj [(''dodgeUsed'', JBool True)])])]"

text \<open>
  The initial state with two weapons, two armor pieces and two relics, the first of each
  equipped (both relics are).
\<close>

definition spareWeapon :: Item where
  "spareWeapon =
     \<lparr> Item.id = ''w2'', Item.name = ''Axe'', rarity = Epic, Item.level = 2,
       Item.upgradeCost = 9, sellPrice = 6 \<rparr>"

definition spareArmor :: Item where
  "spareArmor =
     \<lparr> Item.id = ''a2'', Item.name = ''Mail'', rarity = Common, Item.level = 1,
       Item.upgradeCost = 4, sellPrice = 2 \<rparr>"

definition spareRelic :: RelicItem where
  "spareRelic =
     \<lparr> RelicItem.id = ''r2'', RelicItem.name = ''Charm'', cost = 30, RelicItem.level = 1,
       RelicItem.upgradeCost = 8, RelicItem.baseAtk = None, RelicItem.baseDef = Some 12 \<rparr>"

definition stockedState :: GameState where
  "stockedState =
     (createInitialGameState 0)
       \<lparr> inventory :=
           \<lparr> Inventory.weapons = [exampleWeapon, spareWeapon],
             Inventory.armor = [exampleArmor, spareArmor],
             relics = [exampleRelic, spareRelic], currentWeapon = Some exampleWeapon,
             currentArmor = Some exampleArmor,
             equippedRelics = [exampleRelic, spareRelic] \<rparr> \<rparr>"





section \<open>Unfolding the operations\<close>

lemmas updater_defs =
  equipWeapon_def equipArmor_def upgradeWeapon_def upgradeArmor_def sellWeapon_def
  sellArmor_def upgradeResearch_def openChest_def purchaseMythical_def startCombat_def
  setGameMode_def toggleCheat_def mineGem_def exchangeShinyGems_def discardItem_def
  purchaseRelic_def upgradeRelic_def equipRelic_def unequipRelic_def sellRelic_def
  claimDailyReward_def claimOfflineRewards_def bulkSell_def bulkUpgrade_def plantSeed_def
  buyWater_def updateSettings_def addCoins_def addGems_def teleportToZone_def
  setExperience_def rollSkill_def selectAdventureSkill_def skipAdventureSkills_def
  useSkipCard_def


lemmas example_defs =
  createInitialGameState_def initialStatistics_def emptyAdventureSkills_def
  emptySkillEffects_def selectedType_def playerDamage_def enemyDamage_def Math_max_def
  Math_floor_def shieldSpent_def

section \<open>Binary64 rounding\<close>


lemma scaleUp_pos:
  "0 < m \<Longrightarrow> 0 < u \<Longrightarrow> 0 < fst (scaleUp m u) \<and> 0 < snd (scaleUp m u)"
proof (induction m u rule: scaleUp.induct)
  case (1 m u)
  show ?case
  proof (cases "0 < m \<and> m < 2 ^ 52")
    case True
    then have "scaleUp m u = scaleUp (2 * m) (u / 2)"
      by (subst scaleUp.simps) simp
    moreover have "0 < fst (scaleUp (2 * m) (u / 2)) \<and> 0 < snd (scaleUp (2 * m) (u / 2))"
      using "1.IH" [OF True] "1.prems" by simp
    ultimately show ?thesis by simp
  next
    case False
    then have "scaleUp m u = (m, u)"
      by (subst scaleUp.simps) auto
    then show ?thesis using "1.prems" by simp
  qed
qed

lemma scaleDown_pos:
  "0 < m \<Longrightarrow> 0 < u \<Longrightarrow> 0 < fst (scaleDown m u) \<and> 0 < snd (scaleDown m u)"
proof (induction m u rule: scaleDown.induct)
  case (1 m u)
  show ?case
  proof (cases "2 ^ 53 \<le> m")
    case True
    then have "scaleDown m u = scaleDown (m / 2) (u * 2)"
      by (subst scaleDown.simps) simp
    moreover have "0 < fst (scaleDown (m / 2) (u * 2)) \<and> 0 < snd (scaleDown (m / 2) (u * 2))"
      using "1.IH" [OF True] "1.prems" by simp
    ultimately show ?thesis by simp
  next
    case False
    then have "scaleDown m u = (m, u)"
      by (subst scaleDown.simps) auto
    then show ?thesis using "1.prems" by simp
  qed
qed

lemma roundEven_nonneg: "0 \<le> m \<Longrightarrow> 0 \<le> roundEven m"
  by (simp add: roundEven_def)

text \<open>Rounding keeps the sign: the rounded value of a number that is not negative is not negative.\<close>

lemma fl_nonneg: "0 \<le> x \<Longrightarrow> 0 \<le> fl x"
proof (cases "x = 0")
  case True
  then show ?thesis by (simp add: fl_def)
next
  case False
  assume "0 \<le> x"
  with False have x: "0 < x" by simp
  have up: "0 < fst (scaleUp x 1) \<and> 0 < snd (scaleUp x 1)"
    using scaleUp_pos [of x 1] x by simp
  have n: "0 < fst (normalise x) \<and> 0 < snd (normalise x)"
    unfolding normalise_def using scaleDown_pos up by blast
  have "0 \<le> of_int (roundEven (fst (normalise x))) * snd (normalise x)"
    using n roundEven_nonneg [of "fst (normalise x)"] by simp
  then show ?thesis using x by (simp add: fl_def)
qed


text \<open>
  Each of these products lies just below a whole number that the exact product reaches:
  in exact arithmetic the floors are 63, 231, 115 and 126.
\<close>

lemma exact_values:
  "Math_floor (90 * 0.7) = 63"
  "Math_floor (330 * 0.7) = 231"
  "Math_floor (100 * 1.15) = 115"
  "Math_floor (90 * (1 + 4 * 0.1)) = 126"
  by (simp_all add: Math_floor_def)

section \<open>The dispatcher\<close>

lemma dispatch_loaded: "dispatch op (Some state) = Some (perform op state)"
  by (cases op) (simp_all add: dispatch_def updateGameState_def)

lemma dispatch_not_loaded: "\<not> isReset op \<Longrightarrow> dispatch op None = None"
  by (cases op) (simp_all add: dispatch_def updateGameState_def)

lemma run_snoc: "run (ops @ [op]) state = perform op (run ops state)"
  by (simp add: run_def)

section \<open>The parts of attack\<close>

lemma attackAnswer_frame:
  "selectedType (attackAnswer hit category e state) = selectedType state"
  "metalShieldUsed (skillEffects (adventureSkills (attackAnswer hit category e state)))
     = metalShieldUsed (skillEffects (adventureSkills state))"
  "hasUsedRevival (attackAnswer hit category e state) = hasUsedRevival state"
  "inCombat (attackAnswer hit category e state) = inCombat state"
  "PlayerStats.atk (playerStats (attackAnswer hit category e state))
     = PlayerStats.atk (playerStats state)"
  "maxHp (playerStats (attackAnswer hit category e state)) = maxHp (playerStats state)"
  "totalDeaths (statistics (attackAnswer hit category e state)) = totalDeaths (statistics state)"
  "revivals (statistics (attackAnswer hit category e state)) = revivals (statistics state)"
  by (simp_all add: attackAnswer_def selectedType_def Let_def)



lemma attackVictory_frame:
  "selectedType (attackVictory x) = None"
  "adventureSkills (attackVictory x) = emptyAdventureSkills"
  "hasUsedRevival (attackVictory x) = hasUsedRevival x"
  "playerStats (attackVictory x) = playerStats x"
  "\<not> inCombat (attackVictory x)"
  "currentEnemy (attackVictory x) = None"
  "totalDeaths (statistics (attackVictory x)) = totalDeaths (statistics x)"
  by (simp_all add: attackVictory_def selectedType_def Let_def emptyAdventureSkills_def)



lemma attackCheckDefeat_defeat:
  assumes "PlayerStats.hp (playerStats x) \<le> 0" and "shieldSpent x" and "hasUsedRevival x"
  shows "attackCheckDefeat x =
           x\<lparr> inCombat := False, currentEnemy := None,
               combatLog := combatLog x @ [Defeated],
               statistics := (statistics x)\<lparr> totalDeaths := totalDeaths (statistics x) + 1 \<rparr>,
               adventureSkills := emptyAdventureSkills \<rparr>"
  using assms by (auto simp add: attackCheckDefeat_def shieldSpent_def)

lemma shieldSpent_attackAnswer:
  "shieldSpent (attackAnswer hit category e state) = shieldSpent state"
  by (simp add: shieldSpent_def attackAnswer_frame)

lemma shieldSpent_attackVictory: "shieldSpent (attackVictory x)"
  by (simp add: shieldSpent_def attackVictory_frame)

lemma shieldSpent_attackCheckVictory:
  "shieldSpent x \<Longrightarrow> shieldSpent (attackCheckVictory x)"
  by (simp add: attackCheckVictory_def shieldSpent_attackVictory split: option.splits)



lemma attackCheckVictory_frame:
  "playerStats (attackCheckVictory x) = playerStats x"
  "hasUsedRevival (attackCheckVictory x) = hasUsedRevival x"
  "revivals (statistics (attackCheckVictory x)) = revivals (statistics x)"
  "totalDeaths (statistics (attackCheckVictory x)) = totalDeaths (statistics x)"
  by (simp_all add: attackCheckVictory_def attackVictory_def Let_def split: option.splits)

section \<open>C1: the currency counters\<close>

lemma Math_floor_nonneg: "0 \<le> x \<Longrightarrow> 0 \<le> Math_floor x"
  by (simp add: Math_floor_def)

lemma foldl_sum_nonneg:
  "0 \<le> (acc::real) \<Longrightarrow> list_all (\<lambda>x. 0 \<le> f x) xs \<Longrightarrow> 0 \<le> foldl (\<lambda>sum x. sum + f x) acc xs"
  by (induction xs arbitrary: acc) simp_all

lemma list_all_filter: "list_all P xs \<Longrightarrow> list_all P (filter Q xs)"
  by (induction xs) simp_all

lemma list_all_levelUp:
  "list_all (\<lambda>w. 0 \<le> sellPrice w) xs \<Longrightarrow>
   list_all (\<lambda>w. 0 \<le> sellPrice w) (map (\<lambda>w. if P w then levelUp w else w) xs)"
  by (induction xs) (simp_all add: levelUp_def)

lemma find_list_all: "find P xs = Some x \<Longrightarrow> list_all Q xs \<Longrightarrow> Q x"
  by (induction xs) (auto split: if_splits)

lemma solvent_initial: "solvent (createInitialGameState now)"
  by (simp add: solvent_def createInitialGameState_def)

lemma multiplier_nonneg: "0 \<le> n \<Longrightarrow> 0 \<le> fl (1 + fl (n * fl 0.1))"
proof -
  assume n: "0 \<le> n"
  have "0 \<le> fl 0.1" by (rule fl_nonneg) simp
  with n have "0 \<le> n * fl 0.1" by (rule mult_nonneg_nonneg)
  then have "0 \<le> fl (n * fl 0.1)" by (rule fl_nonneg)
  then have "0 \<le> 1 + fl (n * fl 0.1)" by simp
  then show ?thesis by (rule fl_nonneg)
qed

lemma solvent_attackAnswer: "solvent state \<Longrightarrow> solvent (attackAnswer hit category e state)"
  using multiplier_nonneg [of 0]
    multiplier_nonneg [of "KnowledgeStreak.current (knowledgeStreak state) + 1"]
  by (simp add: solvent_def attackAnswer_def Let_def)

lemma solvent_attackVictory: "solvent x \<Longrightarrow> solvent (attackVictory x)"
proof -
  assume s: "solvent x"
  then have z: "1 \<le> zone x" and m: "0 \<le> multiplier (knowledgeStreak x)"
    by (simp_all add: solvent_def)
  have c: "0 \<le> Math_floor (fl ((10 + zone x * 2) * multiplier (knowledgeStreak x)))"
    using z m by (intro Math_floor_nonneg fl_nonneg mult_nonneg_nonneg) simp_all
  have "0 \<le> zone x / 5" using z by simp
  then have "0 \<le> Math_floor (zone x / 5)" by (rule Math_floor_nonneg)
  then have g:
    "0 \<le> Math_floor (fl ((1 + Math_floor (zone x / 5)) * multiplier (knowledgeStreak x)))"
    using m by (intro Math_floor_nonneg fl_nonneg mult_nonneg_nonneg) simp_all
  show ?thesis using s c g by (simp add: solvent_def attackVictory_def Let_def)
qed

lemma solvent_attackCheckVictory: "solvent x \<Longrightarrow> solvent (attackCheckVictory x)"
  by (simp add: attackCheckVictory_def solvent_attackVictory split: option.splits)

lemma solvent_attackCheckDefeat: "solvent x \<Longrightarrow> solvent (attackCheckDefeat x)"
  by (simp add: solvent_def attackCheckDefeat_def)

lemma solvent_attack: "solvent state \<Longrightarrow> solvent (attack hit category state)"
  by (simp add: attack_def solvent_attackAnswer solvent_attackCheckVictory
      solvent_attackCheckDefeat split: option.splits)

lemma solvent_sellWeapon: "solvent state \<Longrightarrow> solvent (sellWeapon i state)"
  by (auto simp add: solvent_def sellWeapon_def list_all_filter split: option.splits
      dest: find_list_all)

lemma solvent_sellArmor: "solvent state \<Longrightarrow> solvent (sellArmor i state)"
  by (auto simp add: solvent_def sellArmor_def list_all_filter split: option.splits
      dest: find_list_all)

lemma solvent_bulkSell: "solvent state \<Longrightarrow> solvent (bulkSell ids k state)"
  by (simp add: solvent_def bulkSell_def Let_def list_all_filter foldl_sum_nonneg)

lemma solvent_upgradeWeapon: "solvent state \<Longrightarrow> solvent (upgradeWeapon i state)"
  by (simp add: solvent_def upgradeWeapon_def Let_def list_all_levelUp split: option.splits)

lemma solvent_upgradeArmor: "solvent state \<Longrightarrow> solvent (upgradeArmor i state)"
  by (simp add: solvent_def upgradeArmor_def Let_def list_all_levelUp split: option.splits)

lemma solvent_bulkUpgrade: "solvent state \<Longrightarrow> solvent (bulkUpgrade ids k state)"
  by (simp add: solvent_def bulkUpgrade_def Let_def list_all_levelUp)

lemma solvent_openChest:
  "solvent state \<Longrightarrow> 0 \<le> r3 \<Longrightarrow> 0 \<le> sellPrice (gw False (selectRarity ws r1)) \<Longrightarrow>
   0 \<le> sellPrice (ga False (selectRarity ws r1)) \<Longrightarrow>
   solvent (openChest c ws r1 r2 r3 gw ga state)"
proof -
  assume s: "solvent state" and r: "0 \<le> r3"
    and w: "0 \<le> sellPrice (gw False (selectRarity ws r1))"
    and a: "0 \<le> sellPrice (ga False (selectRarity ws r1))"
  from r have "0 \<le> Math_floor (r3 * 10)" by (intro Math_floor_nonneg) simp
  with s w a show ?thesis by (simp add: solvent_def openChest_def Let_def)
qed

lemma solvent_purchaseMythical:
  "solvent state \<Longrightarrow> 0 \<le> sellPrice (gw False (Some Mythical)) \<Longrightarrow>
   0 \<le> sellPrice (ga False (Some Mythical)) \<Longrightarrow> solvent (purchaseMythical c r gw ga state)"
  by (simp add: solvent_def purchaseMythical_def Let_def)

lemma solvent_perform:
  "solvent state \<Longrightarrow> nonNegativeInputs op \<Longrightarrow> solvent (perform op state)"
proof (cases op)
  case (Attack hit category)
  assume "solvent state"
  then show ?thesis using Attack by (simp add: solvent_attack)
next
  case (ResetGame now)
  show ?thesis using ResetGame by (simp add: resetGame_def solvent_initial)
next
  case (SellWeapon i)
  assume "solvent state"
  then show ?thesis using SellWeapon by (simp add: solvent_sellWeapon)
next
  case (SellArmor i)
  assume "solvent state"
  then show ?thesis using SellArmor by (simp add: solvent_sellArmor)
next
  case (BulkSell ids k)
  assume "solvent state"
  then show ?thesis using BulkSell by (simp add: solvent_bulkSell)
next
  case (UpgradeWeapon i)
  assume "solvent state"
  then show ?thesis using UpgradeWeapon by (simp add: solvent_upgradeWeapon)
next
  case (UpgradeArmor i)
  assume "solvent state"
  then show ?thesis using UpgradeArmor by (simp add: solvent_upgradeArmor)
next
  case (BulkUpgrade ids k)
  assume "solvent state"
  then show ?thesis using BulkUpgrade by (simp add: solvent_bulkUpgrade)
next
  case (OpenChest c ws r1 r2 r3 gw ga)
  assume "solvent state" "nonNegativeInputs op"
  then show ?thesis using OpenChest by (simp add: solvent_openChest)
next
  case (PurchaseMythical c r gw ga)
  assume "solvent state" "nonNegativeInputs op"
  then show ?thesis using PurchaseMythical by (simp add: solvent_purchaseMythical)
qed (simp_all add: solvent_def updater_defs Let_def Math_max_def list_all_filter
      split: option.splits)

lemma solvent_run:
  "solvent state \<Longrightarrow> \<forall>op \<in> set ops. nonNegativeInputs op \<Longrightarrow> solvent (run ops state)"
  unfolding run_def
  by (induction ops arbitrary: state) (simp_all add: solvent_perform)

text \<open>
  Claim C1, as amended. Starting from the initial state, for every sequence of public
  operations in which the amounts given to \<^verbatim>\<open>addCoins\<close>, \<^verbatim>\<open>addGems\<close> and
  \<^verbatim>\<open>exchangeShinyGems\<close> are not negative (and, for the parts the hook imports, the draw
  of \<^verbatim>\<open>Math.random()\<close> behind a chest's gem bonus and the sell prices of generated items
  are not negative), the committed coins, gems and shinyGems are not negative. The
  statement is about the state after the whole sequence; every prefix of such a sequence
  is such a sequence, so it covers the state after each operation.
\<close>

theorem currency_never_negative:
  "(\<forall>op \<in> set ops. nonNegativeInputs op) \<longrightarrow>
     0 \<le> coins (run ops (createInitialGameState now))
     \<and> 0 \<le> gems (run ops (createInitialGameState now))
     \<and> 0 \<le> shinyGems (run ops (createInitialGameState now))"
proof
  assume "\<forall>op \<in> set ops. nonNegativeInputs op"
  then have "solvent (run ops (createInitialGameState now))"
    by (intro solvent_run solvent_initial)
  then show "0 \<le> coins (run ops (createInitialGameState now))
     \<and> 0 \<le> gems (run ops (createInitialGameState now))
     \<and> 0 \<le> shinyGems (run ops (createInitialGameState now))"
    by (simp add: solvent_def)
qed

theorem currency_never_negative_witness:
  "nonNegativeInputs (AddCoins 50)
   \<and> nonNegativeInputs
        (OpenChest 50 [70, 20, 7, 2, 1] 71 0.5 0.3 (\<lambda>b r. exampleWeapon) (\<lambda>b r. exampleArmor))
   \<and> nonNegativeInputs (MineGem 0.01) \<and> nonNegativeInputs (ExchangeShinyGems 1)
   \<and> nonNegativeInputs (SellWeapon ''w1'')
   \<and> coins (run 
        [AddCoins 50,
          OpenChest 50 [70, 20, 7, 2, 1] 71 0.5 0.3 (\<lambda>b r. exampleWeapon) (\<lambda>b r. exampleArmor),
          MineGem 0.01, ExchangeShinyGems 1, SellWeapon ''w1''] (createInitialGameState 0)) = 103
   \<and> gems (run 
        [AddCoins 50,
          OpenChest 50 [70, 20, 7, 2, 1] 71 0.5 0.3 (\<lambda>b r. exampleWeapon) (\<lambda>b r. exampleArmor),
          MineGem 0.01, ExchangeShinyGems 1, SellWeapon ''w1''] (createInitialGameState 0)) = 18
   \<and> shinyGems (run 
        [AddCoins 50,
          OpenChest 50 [70, 20, 7, 2, 1] 71 0.5 0.3 (\<lambda>b r. exampleWeapon) (\<lambda>b r. exampleArmor),
          MineGem 0.01, ExchangeShinyGems 1, SellWeapon ''w1''] (createInitialGameState 0)) = 0
   \<and> 0 \<le> coins (run 
        [AddCoins 50,
          OpenChest 50 [70, 20, 7, 2, 1] 71 0.5 0.3 (\<lambda>b r. exampleWeapon) (\<lambda>b r. exampleArmor),
          MineGem 0.01, ExchangeShinyGems 1, SellWeapon ''w1''] (createInitialGameState 0))
   \<and> 0 \<le> gems (run 
        [AddCoins 50,
          OpenChest 50 [70, 20, 7, 2, 1] 71 0.5 0.3 (\<lambda>b r. exampleWeapon) (\<lambda>b r. exampleArmor),
          MineGem 0.01, ExchangeShinyGems 1, SellWeapon ''w1''] (createInitialGameState 0))
   \<and> 0 \<le> shinyGems (run 
        [AddCoins 50,
          OpenChest 50 [70, 20, 7, 2, 1] 71 0.5 0.3 (\<lambda>b r. exampleWeapon) (\<lambda>b r. exampleArmor),
          MineGem 0.01, ExchangeShinyGems 1, SellWeapon ''w1''] (createInitialGameState 0))"
proof -
  have h: "\<forall>op \<in> set 
        [AddCoins 50,
          OpenChest 50 [70, 20, 7, 2, 1] 71 0.5 0.3 (\<lambda>b r. exampleWeapon) (\<lambda>b r. exampleArmor),
          MineGem 0.01, ExchangeShinyGems 1, SellWeapon ''w1'']. nonNegativeInputs op"
    by (simp add: exampleWeapon_def exampleArmor_def)
  have v: "coins (run 
        [AddCoins 50,
          OpenChest 50 [70, 20, 7, 2, 1] 71 0.5 0.3 (\<lambda>b r. exampleWeapon) (\<lambda>b r. exampleArmor),
          MineGem 0.01, ExchangeShinyGems 1, SellWeapon ''w1''] (createInitialGameState 0)) = 103"
    "gems (run 
        [AddCoins 50,
          OpenChest 50 [70, 20, 7, 2, 1] 71 0.5 0.3 (\<lambda>b r. exampleWeapon) (\<lambda>b r. exampleArmor),
          MineGem 0.01, ExchangeShinyGems 1, SellWeapon ''w1''] (createInitialGameState 0)) = 18"
    "shinyGems (run 
        [AddCoins 50,
          OpenChest 50 [70, 20, 7, 2, 1] 71 0.5 0.3 (\<lambda>b r. exampleWeapon) (\<lambda>b r. exampleArmor),
          MineGem 0.01, ExchangeShinyGems 1, SellWeapon ''w1''] (createInitialGameState 0)) = 0"
    by (simp_all add: run_def addCoins_def openChest_def mineGem_def exchangeShinyGems_def
        sellWeapon_def isCurrent_def exampleWeapon_def exampleArmor_def Math_floor_def
        createInitialGameState_def Let_def)
  from currency_never_negative [of "
        [AddCoins 50,
          OpenChest 50 [70, 20, 7, 2, 1] 71 0.5 0.3 (\<lambda>b r. exampleWeapon) (\<lambda>b r. exampleArmor),
          MineGem 0.01, ExchangeShinyGems 1, SellWeapon ''w1'']" 0] h
  have "0 \<le> coins (run 
        [AddCoins 50,
          OpenChest 50 [70, 20, 7, 2, 1] 71 0.5 0.3 (\<lambda>b r. exampleWeapon) (\<lambda>b r. exampleArmor),
          MineGem 0.01, ExchangeShinyGems 1, SellWeapon ''w1''] (createInitialGameState 0))"
    and "0 \<le> gems (run 
        [AddCoins 50,
          OpenChest 50 [70, 20, 7, 2, 1] 71 0.5 0.3 (\<lambda>b r. exampleWeapon) (\<lambda>b r. exampleArmor),
          MineGem 0.01, ExchangeShinyGems 1, SellWeapon ''w1''] (createInitialGameState 0))"
    and "0 \<le> shinyGems (run 
        [AddCoins 50,
          OpenChest 50 [70, 20, 7, 2, 1] 71 0.5 0.3 (\<lambda>b r. exampleWeapon) (\<lambda>b r. exampleArmor),
          MineGem 0.01, ExchangeShinyGems 1, SellWeapon ''w1''] (createInitialGameState 0))"
    by blast+
  then show ?thesis using v by (simp add: exampleWeapon_def exampleArmor_def)
qed

text \<open>
  The claim as stated fails at the first operation: \<^verbatim>\<open>addCoins(-200)\<close> on the initial
  state commits \<open>coins = -100\<close>.
\<close>

theorem currency_negative_counterexample:
  "coins (run [AddCoins (- 200)] (createInitialGameState 0)) = - 100
   \<and> coins (run [AddCoins (- 200)] (createInitialGameState 0)) < 0"
  by (simp add: run_def addCoins_def createInitialGameState_def)

section \<open>C2: the defeat check\<close>





section \<open>C3: the free revival\<close>

lemma attackCheckDefeat_revival_count:
  "revivals (statistics (attackCheckDefeat x))
     = revivals (statistics x)
       + (if \<not> hasUsedRevival x \<and> hasUsedRevival (attackCheckDefeat x) then 1 else 0)"
  "hasUsedRevival x \<Longrightarrow> hasUsedRevival (attackCheckDefeat x)"
  by (simp_all add: attackCheckDefeat_def)

lemma attack_revival_count:
  "revivals (statistics (attack hit category state))
     = revivals (statistics state)
       + (if \<not> hasUsedRevival state \<and> hasUsedRevival (attack hit category state)
          then 1 else 0)"
  "hasUsedRevival state \<Longrightarrow> hasUsedRevival (attack hit category state)"
proof -
  show "revivals (statistics (attack hit category state))
     = revivals (statistics state)
       + (if \<not> hasUsedRevival state \<and> hasUsedRevival (attack hit category state)
          then 1 else 0)"
  proof (cases "currentEnemy state")
    case None
    then show ?thesis by (simp add: attack_def)
  next
    case (Some e)
    define x where "x = attackCheckVictory (attackAnswer hit category e state)"
    have "attack hit category state = attackCheckDefeat x"
      using Some by (simp add: attack_def x_def)
    moreover have "hasUsedRevival x = hasUsedRevival state"
      and "revivals (statistics x) = revivals (statistics state)"
      by (simp_all add: x_def attackCheckVictory_frame attackAnswer_frame)
    ultimately show ?thesis
      using attackCheckDefeat_revival_count(1) [of x] by simp
  qed
  show "hasUsedRevival state \<Longrightarrow> hasUsedRevival (attack hit category state)"
    by (simp add: attack_def attackCheckDefeat_revival_count(2) attackCheckVictory_frame
        attackAnswer_frame split: option.splits)
qed

lemma perform_revival_count:
  assumes "\<not> isReset op"
  shows "revivals (statistics (perform op state))
           = revivals (statistics state)
             + (if \<not> hasUsedRevival state \<and> hasUsedRevival (perform op state) then 1 else 0)"
    and "hasUsedRevival state \<Longrightarrow> hasUsedRevival (perform op state)"
proof -
  show "revivals (statistics (perform op state))
           = revivals (statistics state)
             + (if \<not> hasUsedRevival state \<and> hasUsedRevival (perform op state) then 1 else 0)"
  proof (cases op)
    case (Attack hit category)
    then show ?thesis using attack_revival_count(1) by simp
  next
    case (ResetGame now)
    then show ?thesis using assms by simp
  qed (simp_all add: updater_defs Let_def split: option.splits)
  show "hasUsedRevival state \<Longrightarrow> hasUsedRevival (perform op state)"
  proof (cases op)
    case (Attack hit category)
    assume "hasUsedRevival state"
    then show ?thesis using Attack attack_revival_count(2) by simp
  next
    case (ResetGame now)
    then show ?thesis using assms by simp
  qed (simp_all add: updater_defs Let_def split: option.splits)
qed

lemma run_revival_count:
  assumes "\<forall>op \<in> set ops. \<not> isReset op"
  shows "revivals (statistics (run ops state))
           = revivals (statistics state)
             + (if \<not> hasUsedRevival state \<and> hasUsedRevival (run ops state) then 1 else 0)
         \<and> (hasUsedRevival state \<longrightarrow> hasUsedRevival (run ops state))"
  using assms
proof (induction ops arbitrary: state)
  case Nil
  then show ?case by (simp add: run_def)
next
  case (Cons op ops)
  have r: "run (op # ops) state = run ops (perform op state)" by (simp add: run_def)
  from Cons.prems have n: "\<not> isReset op" and ns: "\<forall>op \<in> set ops. \<not> isReset op" by simp_all
  from Cons.IH [OF ns, of "perform op state"] perform_revival_count [OF n, of state]
  show ?case unfolding r by (auto split: if_splits)
qed

lemma initial_revival_count:
  "revivals (statistics (run ops (createInitialGameState now)))
     = (if hasUsedRevival (run ops (createInitialGameState now)) then 1 else 0)"
proof (induction ops rule: rev_induct)
  case Nil
  show ?case by (simp add: run_def createInitialGameState_def initialStatistics_def)
next
  case (snoc op ops)
  show ?case
  proof (cases "isReset op")
    case True
    then obtain t where "op = ResetGame t" by (cases op) simp_all
    then show ?thesis
      by (simp add: run_snoc resetGame_def createInitialGameState_def initialStatistics_def)
  next
    case False
    from perform_revival_count [OF False, of "run ops (createInitialGameState now)"] snoc.IH
    show ?thesis unfolding run_snoc by (auto split: if_splits)
  qed
qed

lemma attack_second_defeat:
  assumes e: "currentEnemy state = Some e"
    and dead: "PlayerStats.hp (playerStats (attackAnswer hit category e state)) \<le> 0"
    and sp: "shieldSpent state" and used: "hasUsedRevival state"
  shows "\<not> inCombat (attack hit category state)"
    and "currentEnemy (attack hit category state) = None"
    and "PlayerStats.hp (playerStats (attack hit category state))
           = PlayerStats.hp (playerStats (attackAnswer hit category e state))"
    and "totalDeaths (statistics (attack hit category state))
           = totalDeaths (statistics state) + 1"
    and "revivals (statistics (attack hit category state)) = revivals (statistics state)"
proof -
  define x where "x = attackCheckVictory (attackAnswer hit category e state)"
  have att: "attack hit category state = attackCheckDefeat x"
    using e by (simp add: attack_def x_def)
  have d: "PlayerStats.hp (playerStats x) \<le> 0"
    using dead by (simp add: x_def attackCheckVictory_frame)
  have s: "shieldSpent x"
    using sp by (simp add: x_def shieldSpent_attackCheckVictory shieldSpent_attackAnswer)
  have u: "hasUsedRevival x"
    using used by (simp add: x_def attackCheckVictory_frame attackAnswer_frame)
  note eq = attackCheckDefeat_defeat [OF d s u]
  show "\<not> inCombat (attack hit category state)"
    and "currentEnemy (attack hit category state) = None"
    and "PlayerStats.hp (playerStats (attack hit category state))
           = PlayerStats.hp (playerStats (attackAnswer hit category e state))"
    and "totalDeaths (statistics (attack hit category state))
           = totalDeaths (statistics state) + 1"
    and "revivals (statistics (attack hit category state)) = revivals (statistics state)"
    unfolding att eq
    by (simp_all add: x_def attackCheckVictory_frame attackAnswer_frame)
qed

text \<open>
  Claim C3. The revival branch of \<^verbatim>\<open>attack\<close> is the one place that restores hp to
  \<open>maxHp\<close>, sets \<open>hasUsedRevival\<close> and adds one to the \<open>revivals\<close> statistic. Every
  operation but the full reset keeps \<open>hasUsedRevival\<close> once it is true, and the
  \<open>revivals\<close> count grows (by one) in exactly the calls that turn the flag from false to
  true. So over any sequence of operations without a reset the branch runs at most once,
  and not at all when the flag was already set; in every state reached from the initial
  state the count is 1 when the flag is set and 0 otherwise. With the flag set and no metal shield available, an
  attack that leaves the player at 0 hp ends the combat in defeat: \<open>inCombat\<close> is false,
  there is no current enemy, hp is not restored and \<open>totalDeaths\<close> grows by one.
\<close>

theorem revival_at_most_once:
  "(hasUsedRevival state \<and> \<not> isReset op \<longrightarrow>
      hasUsedRevival (perform op state)
      \<and> revivals (statistics (perform op state)) = revivals (statistics state))
   \<and> (\<not> isReset op \<longrightarrow>
      revivals (statistics (perform op state))
        = revivals (statistics state)
          + (if \<not> hasUsedRevival state \<and> hasUsedRevival (perform op state) then 1 else 0))
   \<and> ((\<forall>op \<in> set ops. \<not> isReset op) \<longrightarrow>
      revivals (statistics (run ops state))
        = revivals (statistics state)
          + (if \<not> hasUsedRevival state \<and> hasUsedRevival (run ops state) then 1 else 0)
      \<and> (hasUsedRevival state \<longrightarrow> hasUsedRevival (run ops state)))
   \<and> revivals (statistics (run ops (createInitialGameState now)))
       = (if hasUsedRevival (run ops (createInitialGameState now)) then 1 else 0)
   \<and> (currentEnemy state = Some e
      \<and> PlayerStats.hp (playerStats (attackAnswer hit category e state)) \<le> 0
      \<and> shieldSpent state \<and> hasUsedRevival state \<longrightarrow>
      \<not> inCombat (attack hit category state)
      \<and> currentEnemy (attack hit category state) = None
      \<and> PlayerStats.hp (playerStats (attack hit category state))
          = PlayerStats.hp (playerStats (attackAnswer hit category e state))
      \<and> totalDeaths (statistics (attack hit category state))
          = totalDeaths (statistics state) + 1
      \<and> revivals (statistics (attack hit category state)) = revivals (statistics state))"
proof (intro conjI impI)
  assume h: "hasUsedRevival state \<and> \<not> isReset op"
  then show "hasUsedRevival (perform op state)"
    using perform_revival_count(2) by blast
  from h show "revivals (statistics (perform op state)) = revivals (statistics state)"
    using perform_revival_count(1) [of op state] by simp
next
  assume "\<not> isReset op"
  then show "revivals (statistics (perform op state))
        = revivals (statistics state)
          + (if \<not> hasUsedRevival state \<and> hasUsedRevival (perform op state) then 1 else 0)"
    by (rule perform_revival_count(1))
next
  assume h: "\<forall>op \<in> set ops. \<not> isReset op"
  from run_revival_count [OF h, of state]
  show "revivals (statistics (run ops state))
        = revivals (statistics state)
          + (if \<not> hasUsedRevival state \<and> hasUsedRevival (run ops state) then 1 else 0)"
    by blast
  assume "hasUsedRevival state"
  with run_revival_count [OF h, of state] show "hasUsedRevival (run ops state)" by blast
next
  show "revivals (statistics (run ops (createInitialGameState now)))
       = (if hasUsedRevival (run ops (createInitialGameState now)) then 1 else 0)"
    by (rule initial_revival_count)
next
  assume h: "currentEnemy state = Some e
      \<and> PlayerStats.hp (playerStats (attackAnswer hit category e state)) \<le> 0
      \<and> shieldSpent state \<and> hasUsedRevival state"
  then have a: "currentEnemy state = Some e"
    and b: "PlayerStats.hp (playerStats (attackAnswer hit category e state)) \<le> 0"
    and c: "shieldSpent state" and d: "hasUsedRevival state"
    by simp_all
  note r = attack_second_defeat [OF a b c d]
  show "\<not> inCombat (attack hit category state)" by (rule r(1))
  show "currentEnemy (attack hit category state) = None" by (rule r(2))
  show "PlayerStats.hp (playerStats (attack hit category state))
          = PlayerStats.hp (playerStats (attackAnswer hit category e state))" by (rule r(3))
  show "totalDeaths (statistics (attack hit category state))
          = totalDeaths (statistics state) + 1" by (rule r(4))
  show "revivals (statistics (attack hit category state)) = revivals (statistics state)"
    by (rule r(5))
qed

theorem revival_at_most_once_witness:
  "hasUsedRevival (shieldState\<lparr> hasUsedRevival := True, adventureSkills := emptyAdventureSkills \<rparr>)
   \<and> \<not> isReset (Attack False None)
   \<and> shieldSpent (shieldState\<lparr> hasUsedRevival := True, adventureSkills := emptyAdventureSkills \<rparr>)
   \<and> currentEnemy (shieldState\<lparr> hasUsedRevival := True, adventureSkills := emptyAdventureSkills \<rparr>)
       = Some strongEnemy
   \<and> PlayerStats.hp (playerStats (attackAnswer False None strongEnemy
         (shieldState\<lparr> hasUsedRevival := True, adventureSkills := emptyAdventureSkills \<rparr>))) \<le> 0
   \<and> hasUsedRevival (perform (Attack False None)
         (shieldState\<lparr> hasUsedRevival := True, adventureSkills := emptyAdventureSkills \<rparr>))
   \<and> revivals (statistics (perform (Attack False None)
         (shieldState\<lparr> hasUsedRevival := True, adventureSkills := emptyAdventureSkills \<rparr>))) = 0
   \<and> revivals (statistics (run [Attack False None, AddCoins 1]
         (shieldState\<lparr> hasUsedRevival := True, adventureSkills := emptyAdventureSkills \<rparr>))) = 0
   \<and> \<not> inCombat (attack False None
         (shieldState\<lparr> hasUsedRevival := True, adventureSkills := emptyAdventureSkills \<rparr>))
   \<and> currentEnemy (attack False None
         (shieldState\<lparr> hasUsedRevival := True, adventureSkills := emptyAdventureSkills \<rparr>)) = None
   \<and> PlayerStats.hp (playerStats (attack False None
         (shieldState\<lparr> hasUsedRevival := True, adventureSkills := emptyAdventureSkills \<rparr>))) = 0
   \<and> totalDeaths (statistics (attack False None
         (shieldState\<lparr> hasUsedRevival := True, adventureSkills := emptyAdventureSkills \<rparr>))) = 1
   \<and> revivals (statistics (run [Attack False None, AddCoins 1] (createInitialGameState 0))) = 0"
proof -
  define rs where
    "rs = shieldState\<lparr> hasUsedRevival := True, adventureSkills := emptyAdventureSkills \<rparr>"
  have a: "hasUsedRevival rs" and b: "\<not> isReset (Attack False None)"
    and c: "shieldSpent rs" and d: "currentEnemy rs = Some strongEnemy"
    and r0: "revivals (statistics rs) = 0" and t0: "totalDeaths (statistics rs) = 0"
    and ro: "\<forall>op \<in> set [Attack False None, AddCoins 1]. \<not> isReset op"
    by (simp_all add: rs_def shieldState_def example_defs)
  have f: "PlayerStats.hp (playerStats (attackAnswer False None strongEnemy rs)) = 0"
    by (simp add: rs_def shieldState_def strongEnemy_def attackAnswer_def example_defs)
  have n: "\<not> hasUsedRevival (run [Attack False None, AddCoins 1] (createInitialGameState 0))"
    by (simp add: run_def attack_def addCoins_def createInitialGameState_def)
  from revival_at_most_once
         [of rs "Attack False None" "[Attack False None, AddCoins 1]" 0 strongEnemy False None]
    a b c d f r0 t0 ro
  have "hasUsedRevival (perform (Attack False None) rs)"
    and "revivals (statistics (perform (Attack False None) rs)) = 0"
    and "revivals (statistics (run [Attack False None, AddCoins 1] rs)) = 0"
    and "\<not> inCombat (attack False None rs)"
    and "currentEnemy (attack False None rs) = None"
    and "PlayerStats.hp (playerStats (attack False None rs)) = 0"
    and "totalDeaths (statistics (attack False None rs)) = 1"
    by simp_all
  moreover from revival_at_most_once
                  [of rs "Attack False None" "[Attack False None, AddCoins 1]" 0] n
  have "revivals (statistics (run [Attack False None, AddCoins 1] (createInitialGameState 0))) = 0"
    by simp
  ultimately show ?thesis using a b c d f unfolding rs_def by simp
qed

section \<open>C4: victory\<close>





section \<open>C5: the dodge skill\<close>






section \<open>C6: hp and maxHp\<close>

lemma Math_floor_le: "Math_floor x \<le> x"
  by (simp add: Math_floor_def)

lemma enemyDamage_ge_1: "1 \<le> enemyDamage state e"
proof -
  have a: "1 \<le> Math_max 1 (Enemy.atk e - PlayerStats.def (playerStats state))"
    by (simp add: Math_max_def)
  then have "1 \<le> Math_max 1 (Enemy.atk e - PlayerStats.def (playerStats state)) * 1.1"
    by simp
  then have "1 \<le> Math_floor (Math_max 1 (Enemy.atk e - PlayerStats.def (playerStats state)) * 1.1)"
    by (simp add: Math_floor_def le_floor_iff)
  with a show ?thesis by (simp add: enemyDamage_def Let_def)
qed

lemma hpBounded_initial: "hpBounded (createInitialGameState now)"
  by (simp add: hpBounded_def createInitialGameState_def)

lemma hpBounded_attackAnswer: "hpBounded state \<Longrightarrow> hpBounded (attackAnswer hit category e state)"
  using enemyDamage_ge_1 [of state e]
  by (simp add: hpBounded_def attackAnswer_def Let_def Math_max_def)

lemma hpBounded_attackCheckVictory: "hpBounded x \<Longrightarrow> hpBounded (attackCheckVictory x)"
  by (simp add: hpBounded_def attackCheckVictory_frame)

lemma hpBounded_attackCheckDefeat: "hpBounded x \<Longrightarrow> hpBounded (attackCheckDefeat x)"
  by (simp add: hpBounded_def attackCheckDefeat_def)

lemma hpBounded_attack: "hpBounded state \<Longrightarrow> hpBounded (attack hit category state)"
  by (simp add: attack_def hpBounded_attackAnswer hpBounded_attackCheckVictory
      hpBounded_attackCheckDefeat split: option.splits)

lemma hpBounded_applySkill:
  assumes m: "1 \<le> maxHp p" and h: "PlayerStats.hp p \<le> maxHp p"
    and n: "\<not> (t = Ramp \<and> statToDouble r1 r2 = HpStat)"
  shows "1 \<le> maxHp (fst (applySkill t r1 r2 r3 (p, fx)))
         \<and> PlayerStats.hp (fst (applySkill t r1 r2 r3 (p, fx)))
             \<le> maxHp (fst (applySkill t r1 r2 r3 (p, fx)))"
proof (cases t)
  case Risker
  have "Math_floor (PlayerStats.hp p * 0.85) \<le> PlayerStats.hp p * 0.85" by (rule Math_floor_le)
  with m h show ?thesis using Risker by (simp add: applySkill_def)
next
  case Ramp
  with n have d: "statToDouble r1 r2 \<noteq> HpStat" by simp
  have f: "Math_floor (PlayerStats.hp p * 0.6) \<le> PlayerStats.hp p * 0.6" by (rule Math_floor_le)
  show ?thesis
    using Ramp d m h f
    by (cases "statToDouble r1 r2"; cases "statToReduce (statToDouble r1 r2) r3")
       (simp_all add: applySkill_def doubleStat_def reduceStat_def)
qed (use m h in \<open>simp_all add: applySkill_def\<close>)

lemma hpBounded_selectAdventureSkill:
  "hpBounded state \<Longrightarrow> \<not> (AdventureSkill.type sk = Ramp \<and> statToDouble r1 r2 = HpStat) \<Longrightarrow>
   hpBounded (selectAdventureSkill sk g r1 r2 r3 state)"
  using hpBounded_applySkill
          [of "playerStats state" "AdventureSkill.type sk" r1 r2 r3
              "skillEffects (adventureSkills state)"]
  by (simp add: hpBounded_def selectAdventureSkill_def Let_def)

lemma hpBounded_perform:
  "hpBounded state \<Longrightarrow> \<not> doublesHp op \<Longrightarrow> hpBounded (perform op state)"
proof (cases op)
  case (Attack hit category)
  assume "hpBounded state"
  then show ?thesis using Attack by (simp add: hpBounded_attack)
next
  case (ResetGame now)
  show ?thesis using ResetGame by (simp add: resetGame_def hpBounded_initial)
next
  case (SelectAdventureSkill sk g r1 r2 r3)
  assume "hpBounded state" "\<not> doublesHp op"
  then show ?thesis using SelectAdventureSkill by (simp add: hpBounded_selectAdventureSkill)
qed (simp_all add: hpBounded_def updater_defs Let_def split: option.splits)

lemma hpBounded_run:
  "hpBounded state \<Longrightarrow> \<forall>op \<in> set ops. \<not> doublesHp op \<Longrightarrow> hpBounded (run ops state)"
  unfolding run_def
  by (induction ops arbitrary: state) (simp_all add: hpBounded_perform)

text \<open>
  Claim C6, as amended. Every operation other than \<^verbatim>\<open>selectAdventureSkill\<close> with the
  ramp skill when hp is the stat that skill doubles preserves \<open>hp \<le> maxHp\<close> (for a
  maximum of at least 1, which no operation changes): in every state reached from the
  initial state by public operations other than that one, hp does not exceed \<open>maxHp\<close>.
  The risker skill and the other outcomes of the ramp skill are among the operations
  covered.
\<close>

theorem hp_within_maxHp:
  "(1 \<le> maxHp (playerStats state)
      \<and> PlayerStats.hp (playerStats state) \<le> maxHp (playerStats state)
      \<and> \<not> doublesHp op
    \<longrightarrow> 1 \<le> maxHp (playerStats (perform op state))
        \<and> PlayerStats.hp (playerStats (perform op state))
            \<le> maxHp (playerStats (perform op state)))
   \<and> ((\<forall>op \<in> set ops. \<not> doublesHp op)
    \<longrightarrow> PlayerStats.hp (playerStats (run ops (createInitialGameState now)))
          \<le> maxHp (playerStats (run ops (createInitialGameState now))))"
proof (intro conjI impI)
  assume h: "1 \<le> maxHp (playerStats state)
      \<and> PlayerStats.hp (playerStats state) \<le> maxHp (playerStats state)
      \<and> \<not> doublesHp op"
  then have "hpBounded (perform op state)"
    by (intro hpBounded_perform) (simp_all add: hpBounded_def)
  then show "1 \<le> maxHp (playerStats (perform op state))"
    and "PlayerStats.hp (playerStats (perform op state))
            \<le> maxHp (playerStats (perform op state))"
    by (simp_all add: hpBounded_def)
next
  assume "\<forall>op \<in> set ops. \<not> doublesHp op"
  then have "hpBounded (run ops (createInitialGameState now))"
    by (intro hpBounded_run hpBounded_initial)
  then show "PlayerStats.hp (playerStats (run ops (createInitialGameState now)))
          \<le> maxHp (playerStats (run ops (createInitialGameState now)))"
    by (simp add: hpBounded_def)
qed

theorem hp_within_maxHp_witness:
  "1 \<le> maxHp (playerStats (createInitialGameState 0))
   \<and> PlayerStats.hp (playerStats (createInitialGameState 0))
       \<le> maxHp (playerStats (createInitialGameState 0))
   \<and> \<not> doublesHp (SelectAdventureSkill rampSkill ogres 0.5 0.2 0.7)
   \<and> PlayerStats.hp (playerStats
        (perform (SelectAdventureSkill rampSkill ogres 0.5 0.2 0.7) (createInitialGameState 0)))
       = 60
   \<and> maxHp (playerStats
        (perform (SelectAdventureSkill rampSkill ogres 0.5 0.2 0.7) (createInitialGameState 0)))
       = 100
   \<and> PlayerStats.hp (playerStats
        (run [SelectAdventureSkill dodgeSkill ogres 0 0 0, Attack False None, Attack False None]
           (createInitialGameState 0)))
       \<le> maxHp (playerStats
        (run [SelectAdventureSkill dodgeSkill ogres 0 0 0, Attack False None, Attack False None]
           (createInitialGameState 0)))"
proof -
  have a: "1 \<le> maxHp (playerStats (createInitialGameState 0))"
    and b: "PlayerStats.hp (playerStats (createInitialGameState 0))
              \<le> maxHp (playerStats (createInitialGameState 0))"
    by (simp_all add: createInitialGameState_def)
  have c: "\<not> doublesHp (SelectAdventureSkill rampSkill ogres 0.5 0.2 0.7)"
    by (simp add: statToDouble_def)
  have d: "PlayerStats.hp (playerStats
        (perform (SelectAdventureSkill rampSkill ogres 0.5 0.2 0.7) (createInitialGameState 0)))
       = 60"
    and e: "maxHp (playerStats
        (perform (SelectAdventureSkill rampSkill ogres 0.5 0.2 0.7) (createInitialGameState 0)))
       = 100"
    by (simp_all add: selectAdventureSkill_def applySkill_def rampSkill_def statToDouble_def
        statToReduce_def doubleStat_def reduceStat_def Math_floor_def Let_def
        createInitialGameState_def)
  have f: "\<forall>op \<in> set [SelectAdventureSkill dodgeSkill ogres 0 0 0, Attack False None,
                        Attack False None]. \<not> doublesHp op"
    by (simp add: dodgeSkill_def)
  from hp_within_maxHp
         [of "createInitialGameState 0" "SelectAdventureSkill rampSkill ogres 0.5 0.2 0.7"
             "[SelectAdventureSkill dodgeSkill ogres 0 0 0, Attack False None, Attack False None]"
             0] f
  have "PlayerStats.hp (playerStats
        (run [SelectAdventureSkill dodgeSkill ogres 0 0 0, Attack False None, Attack False None]
           (createInitialGameState 0)))
       \<le> maxHp (playerStats
        (run [SelectAdventureSkill dodgeSkill ogres 0 0 0, Attack False None, Attack False None]
           (createInitialGameState 0)))"
    by blast
  then show ?thesis using a b c d e by blast
qed

text \<open>
  The claim as stated fails after one operation: selecting the ramp skill with draws that
  double hp (and reduce atk) takes hp from 100 to 200 while \<open>maxHp\<close> stays 100.
\<close>

theorem hp_exceeds_maxHp_counterexample:
  "PlayerStats.hp (playerStats
     (run [SelectAdventureSkill rampSkill ogres 0.5 0.7 0.2] (createInitialGameState 0)))
     = 200
   \<and> maxHp (playerStats
        (run [SelectAdventureSkill rampSkill ogres 0.5 0.7 0.2] (createInitialGameState 0)))
     = 100
   \<and> \<not> PlayerStats.hp (playerStats
        (run [SelectAdventureSkill rampSkill ogres 0.5 0.7 0.2] (createInitialGameState 0)))
       \<le> maxHp (playerStats
        (run [SelectAdventureSkill rampSkill ogres 0.5 0.7 0.2] (createInitialGameState 0)))"
proof -
  have d: "PlayerStats.hp (playerStats
     (run [SelectAdventureSkill rampSkill ogres 0.5 0.7 0.2] (createInitialGameState 0)))
     = 200"
    and e: "maxHp (playerStats
        (run [SelectAdventureSkill rampSkill ogres 0.5 0.7 0.2] (createInitialGameState 0)))
     = 100"
    by (simp_all add: run_def selectAdventureSkill_def applySkill_def rampSkill_def
        statToDouble_def statToReduce_def doubleStat_def reduceStat_def Math_floor_def Let_def
        createInitialGameState_def)
  show ?thesis using d e by simp
qed

section \<open>C7: upgrade costs\<close>

lemma find_map_keyed:
  assumes "\<And>x. key (f x) = key x"
  shows "find (\<lambda>x. key x = k) (map (\<lambda>x. if key x = k then f x else x) xs)
         = map_option f (find (\<lambda>x. key x = k) xs)"
  using assms by (induction xs) auto

lemma levelUp_id: "Item.id (levelUp w) = Item.id w"
  by (simp add: levelUp_def)

lemma relicLevelUp_id: "RelicItem.id (relicLevelUp r) = RelicItem.id r"
  by (simp add: relicLevelUp_def)

lemma upgradeWeapon_weapons:
  "find (\<lambda>x. Item.id x = i) (Inventory.weapons (inventory state)) = Some w \<Longrightarrow>
   Item.upgradeCost w \<le> gems state \<Longrightarrow>
   Inventory.weapons (inventory (upgradeWeapon i state))
     = map (\<lambda>x. if Item.id x = i then levelUp x else x) (Inventory.weapons (inventory state))"
  by (simp add: upgradeWeapon_def Let_def)

lemma upgradeArmor_armor:
  "find (\<lambda>x. Item.id x = i) (Inventory.armor (inventory state)) = Some w \<Longrightarrow>
   Item.upgradeCost w \<le> gems state \<Longrightarrow>
   Inventory.armor (inventory (upgradeArmor i state))
     = map (\<lambda>x. if Item.id x = i then levelUp x else x) (Inventory.armor (inventory state))"
  by (simp add: upgradeArmor_def Let_def)

lemma upgradeRelic_relics:
  "find (\<lambda>x. RelicItem.id x = i) (relics (inventory state)) = Some r \<Longrightarrow>
   RelicItem.upgradeCost r \<le> gems state \<Longrightarrow>
   relics (inventory (upgradeRelic i state))
     = map (\<lambda>x. if RelicItem.id x = i then relicLevelUp x else x) (relics (inventory state))"
  by (simp add: upgradeRelic_def Let_def)

lemma upgradeWeapon_find:
  "find (\<lambda>x. Item.id x = i) (Inventory.weapons (inventory state)) = Some w \<Longrightarrow>
   Item.upgradeCost w \<le> gems state \<Longrightarrow>
   find (\<lambda>x. Item.id x = i) (Inventory.weapons (inventory (upgradeWeapon i state)))
     = Some (levelUp w)"
  by (simp add: upgradeWeapon_weapons find_map_keyed [where key = Item.id, OF levelUp_id])

lemma upgradeArmor_find:
  "find (\<lambda>x. Item.id x = i) (Inventory.armor (inventory state)) = Some w \<Longrightarrow>
   Item.upgradeCost w \<le> gems state \<Longrightarrow>
   find (\<lambda>x. Item.id x = i) (Inventory.armor (inventory (upgradeArmor i state)))
     = Some (levelUp w)"
  by (simp add: upgradeArmor_armor find_map_keyed [where key = Item.id, OF levelUp_id])

lemma upgradeRelic_find:
  "find (\<lambda>x. RelicItem.id x = i) (relics (inventory state)) = Some r \<Longrightarrow>
   RelicItem.upgradeCost r \<le> gems state \<Longrightarrow>
   find (\<lambda>x. RelicItem.id x = i) (relics (inventory (upgradeRelic i state)))
     = Some (relicLevelUp r)"
  by (simp add: upgradeRelic_relics find_map_keyed [where key = RelicItem.id, OF relicLevelUp_id])

text \<open>
  \<open>k\<close> upgrades in a row, each of them successful: the item found under the id has the
  \<open>k\<close>-fold iterate of the cost step as its cost and \<open>k\<close> more levels.
\<close>

lemma iterated_upgrade:
  fixes up :: "GameState \<Rightarrow> GameState"
    and look :: "GameState \<Rightarrow> 'a option"
    and lv :: "'a \<Rightarrow> 'a"
    and cst :: "'a \<Rightarrow> real"
    and lvl :: "'a \<Rightarrow> real"
  assumes one: "\<And>s x. look s = Some x \<Longrightarrow> cst x \<le> gems s \<Longrightarrow> look (up s) = Some (lv x)"
    and c: "\<And>x. cst (lv x) = Math_floor (cst x * 1.5)"
    and l: "\<And>x. lvl (lv x) = lvl x + 1"
    and start: "look state = Some w"
    and ok: "\<forall>j<k. \<forall>x. look ((up ^^ j) state) = Some x \<longrightarrow> cst x \<le> gems ((up ^^ j) state)"
  shows "\<exists>x. look ((up ^^ k) state) = Some x
             \<and> cst x = ((\<lambda>c. Math_floor (c * 1.5)) ^^ k) (cst w)
             \<and> lvl x = lvl w + real k"
  using ok
proof (induction k)
  case 0
  then show ?case using start by simp
next
  case (Suc k)
  then obtain x where x: "look ((up ^^ k) state) = Some x"
      "cst x = ((\<lambda>c. Math_floor (c * 1.5)) ^^ k) (cst w)" "lvl x = lvl w + real k"
    by fastforce
  from Suc.prems x(1) have "cst x \<le> gems ((up ^^ k) state)" by blast
  from one [OF x(1) this] have "look ((up ^^ Suc k) state) = Some (lv x)" by simp
  moreover have "cst (lv x) = ((\<lambda>c. Math_floor (c * 1.5)) ^^ Suc k) (cst w)"
    using c x(2) by simp
  moreover have "lvl (lv x) = lvl w + real (Suc k)"
    using l x(3) by simp
  ultimately show ?case by blast
qed

text \<open>
  Claim C7. A successful upgrade of a weapon, an armor or a relic (the item is found and
  the gems cover its cost) replaces the cost \<open>c\<close> of every item under that id by
  \<open>floor (c * 1.5)\<close> and adds one level; a successful bulk upgrade does the same for
  every listed id. After \<open>k\<close> successful upgrades in a row the cost
  is the \<open>k\<close>-fold iterate of \<open>c \<mapsto> floor (c * 1.5)\<close> on the first cost, which is not
  \<open>floor (c * 1.5 ^ k)\<close>: from 5, two steps give 10, the power gives 11.
\<close>

theorem upgrade_cost_stepwise:
  "(find (\<lambda>x. Item.id x = i) (Inventory.weapons (inventory state)) = Some w
      \<and> (\<forall>j<k. \<forall>x. find (\<lambda>x. Item.id x = i)
                        (Inventory.weapons (inventory ((upgradeWeapon i ^^ j) state))) = Some x
                    \<longrightarrow> Item.upgradeCost x \<le> gems ((upgradeWeapon i ^^ j) state))
    \<longrightarrow> (\<exists>x. find (\<lambda>x. Item.id x = i)
                 (Inventory.weapons (inventory ((upgradeWeapon i ^^ k) state))) = Some x
             \<and> Item.upgradeCost x = ((\<lambda>c. Math_floor (c * 1.5)) ^^ k) (Item.upgradeCost w)
             \<and> Item.level x = Item.level w + real k))
   \<and> (find (\<lambda>x. Item.id x = i) (Inventory.armor (inventory state)) = Some w
      \<and> (\<forall>j<k. \<forall>x. find (\<lambda>x. Item.id x = i)
                        (Inventory.armor (inventory ((upgradeArmor i ^^ j) state))) = Some x
                    \<longrightarrow> Item.upgradeCost x \<le> gems ((upgradeArmor i ^^ j) state))
    \<longrightarrow> (\<exists>x. find (\<lambda>x. Item.id x = i)
                 (Inventory.armor (inventory ((upgradeArmor i ^^ k) state))) = Some x
             \<and> Item.upgradeCost x = ((\<lambda>c. Math_floor (c * 1.5)) ^^ k) (Item.upgradeCost w)
             \<and> Item.level x = Item.level w + real k))
   \<and> (find (\<lambda>x. RelicItem.id x = i) (relics (inventory state)) = Some r
      \<and> (\<forall>j<k. \<forall>x. find (\<lambda>x. RelicItem.id x = i)
                        (relics (inventory ((upgradeRelic i ^^ j) state))) = Some x
                    \<longrightarrow> RelicItem.upgradeCost x \<le> gems ((upgradeRelic i ^^ j) state))
    \<longrightarrow> (\<exists>x. find (\<lambda>x. RelicItem.id x = i)
                 (relics (inventory ((upgradeRelic i ^^ k) state))) = Some x
             \<and> RelicItem.upgradeCost x
                 = ((\<lambda>c. Math_floor (c * 1.5)) ^^ k) (RelicItem.upgradeCost r)
             \<and> RelicItem.level x = RelicItem.level r + real k))
   \<and> (find (\<lambda>x. Item.id x = i) (Inventory.weapons (inventory state)) = Some w
      \<and> Item.upgradeCost w \<le> gems state
    \<longrightarrow> Inventory.weapons (inventory (upgradeWeapon i state))
          = map (\<lambda>x. if Item.id x = i
                      then x\<lparr> Item.level := Item.level x + 1,
                              Item.upgradeCost := Math_floor (Item.upgradeCost x * 1.5) \<rparr>
                      else x) (Inventory.weapons (inventory state)))
   \<and> (find (\<lambda>x. Item.id x = i) (Inventory.armor (inventory state)) = Some w
      \<and> Item.upgradeCost w \<le> gems state
    \<longrightarrow> Inventory.armor (inventory (upgradeArmor i state))
          = map (\<lambda>x. if Item.id x = i
                      then x\<lparr> Item.level := Item.level x + 1,
                              Item.upgradeCost := Math_floor (Item.upgradeCost x * 1.5) \<rparr>
                      else x) (Inventory.armor (inventory state)))
   \<and> (find (\<lambda>x. RelicItem.id x = i) (relics (inventory state)) = Some r
      \<and> RelicItem.upgradeCost r \<le> gems state
    \<longrightarrow> map (\<lambda>x. (RelicItem.id x, RelicItem.level x, RelicItem.upgradeCost x))
            (relics (inventory (upgradeRelic i state)))
          = map (\<lambda>x. if RelicItem.id x = i
                      then (RelicItem.id x, RelicItem.level x + 1,
                            Math_floor (RelicItem.upgradeCost x * 1.5))
                      else (RelicItem.id x, RelicItem.level x, RelicItem.upgradeCost x))
              (relics (inventory state)))
   \<and> (foldl (\<lambda>sum x. sum + Item.upgradeCost x) 0
          (filter (\<lambda>x. Item.id x \<in> set itemIds) (Inventory.weapons (inventory state)))
        \<le> gems state
    \<longrightarrow> Inventory.weapons (inventory (bulkUpgrade itemIds WeaponKind state))
          = map (\<lambda>x. if Item.id x \<in> set itemIds
                      then x\<lparr> Item.level := Item.level x + 1,
                              Item.upgradeCost := Math_floor (Item.upgradeCost x * 1.5) \<rparr>
                      else x) (Inventory.weapons (inventory state)))
   \<and> (foldl (\<lambda>sum x. sum + Item.upgradeCost x) 0
          (filter (\<lambda>x. Item.id x \<in> set itemIds) (Inventory.armor (inventory state)))
        \<le> gems state
    \<longrightarrow> Inventory.armor (inventory (bulkUpgrade itemIds ArmorKind state))
          = map (\<lambda>x. if Item.id x \<in> set itemIds
                      then x\<lparr> Item.level := Item.level x + 1,
                              Item.upgradeCost := Math_floor (Item.upgradeCost x * 1.5) \<rparr>
                      else x) (Inventory.armor (inventory state)))
   \<and> ((\<lambda>c. Math_floor (c * 1.5)) ^^ 2) 5 = 10
   \<and> Math_floor (5 * 1.5 ^ 2) = 11"
proof (intro conjI impI)
  assume "foldl (\<lambda>sum x. sum + Item.upgradeCost x) 0
          (filter (\<lambda>x. Item.id x \<in> set itemIds) (Inventory.weapons (inventory state)))
        \<le> gems state"
  then show "Inventory.weapons (inventory (bulkUpgrade itemIds WeaponKind state))
          = map (\<lambda>x. if Item.id x \<in> set itemIds
                      then x\<lparr> Item.level := Item.level x + 1,
                              Item.upgradeCost := Math_floor (Item.upgradeCost x * 1.5) \<rparr>
                      else x) (Inventory.weapons (inventory state))"
    by (simp add: bulkUpgrade_def Let_def levelUp_def)
next
  assume "foldl (\<lambda>sum x. sum + Item.upgradeCost x) 0
          (filter (\<lambda>x. Item.id x \<in> set itemIds) (Inventory.armor (inventory state)))
        \<le> gems state"
  then show "Inventory.armor (inventory (bulkUpgrade itemIds ArmorKind state))
          = map (\<lambda>x. if Item.id x \<in> set itemIds
                      then x\<lparr> Item.level := Item.level x + 1,
                              Item.upgradeCost := Math_floor (Item.upgradeCost x * 1.5) \<rparr>
                      else x) (Inventory.armor (inventory state))"
    by (simp add: bulkUpgrade_def Let_def levelUp_def)
next
  assume h: "find (\<lambda>x. Item.id x = i) (Inventory.weapons (inventory state)) = Some w
      \<and> (\<forall>j<k. \<forall>x. find (\<lambda>x. Item.id x = i)
                        (Inventory.weapons (inventory ((upgradeWeapon i ^^ j) state))) = Some x
                    \<longrightarrow> Item.upgradeCost x \<le> gems ((upgradeWeapon i ^^ j) state))"
  show "\<exists>x. find (\<lambda>x. Item.id x = i)
                 (Inventory.weapons (inventory ((upgradeWeapon i ^^ k) state))) = Some x
             \<and> Item.upgradeCost x = ((\<lambda>c. Math_floor (c * 1.5)) ^^ k) (Item.upgradeCost w)
             \<and> Item.level x = Item.level w + real k"
    by (rule iterated_upgrade
          [where up = "upgradeWeapon i" and lv = levelUp
             and look = "\<lambda>s. find (\<lambda>x. Item.id x = i) (Inventory.weapons (inventory s))"])
       (use h in \<open>simp_all add: upgradeWeapon_find levelUp_def\<close>)
next
  assume h: "find (\<lambda>x. Item.id x = i) (Inventory.armor (inventory state)) = Some w
      \<and> (\<forall>j<k. \<forall>x. find (\<lambda>x. Item.id x = i)
                        (Inventory.armor (inventory ((upgradeArmor i ^^ j) state))) = Some x
                    \<longrightarrow> Item.upgradeCost x \<le> gems ((upgradeArmor i ^^ j) state))"
  show "\<exists>x. find (\<lambda>x. Item.id x = i)
                 (Inventory.armor (inventory ((upgradeArmor i ^^ k) state))) = Some x
             \<and> Item.upgradeCost x = ((\<lambda>c. Math_floor (c * 1.5)) ^^ k) (Item.upgradeCost w)
             \<and> Item.level x = Item.level w + real k"
    by (rule iterated_upgrade
          [where up = "upgradeArmor i" and lv = levelUp
             and look = "\<lambda>s. find (\<lambda>x. Item.id x = i) (Inventory.armor (inventory s))"])
       (use h in \<open>simp_all add: upgradeArmor_find levelUp_def\<close>)
next
  assume h: "find (\<lambda>x. RelicItem.id x = i) (relics (inventory state)) = Some r
      \<and> (\<forall>j<k. \<forall>x. find (\<lambda>x. RelicItem.id x = i)
                        (relics (inventory ((upgradeRelic i ^^ j) state))) = Some x
                    \<longrightarrow> RelicItem.upgradeCost x \<le> gems ((upgradeRelic i ^^ j) state))"
  show "\<exists>x. find (\<lambda>x. RelicItem.id x = i)
                 (relics (inventory ((upgradeRelic i ^^ k) state))) = Some x
             \<and> RelicItem.upgradeCost x
                 = ((\<lambda>c. Math_floor (c * 1.5)) ^^ k) (RelicItem.upgradeCost r)
             \<and> RelicItem.level x = RelicItem.level r + real k"
    by (rule iterated_upgrade
          [where up = "upgradeRelic i" and lv = relicLevelUp
             and look = "\<lambda>s. find (\<lambda>x. RelicItem.id x = i) (relics (inventory s))"])
       (use h in \<open>simp_all add: upgradeRelic_find relicLevelUp_def\<close>)
next
  assume "find (\<lambda>x. Item.id x = i) (Inventory.weapons (inventory state)) = Some w
      \<and> Item.upgradeCost w \<le> gems state"
  then show "Inventory.weapons (inventory (upgradeWeapon i state))
          = map (\<lambda>x. if Item.id x = i
                      then x\<lparr> Item.level := Item.level x + 1,
                              Item.upgradeCost := Math_floor (Item.upgradeCost x * 1.5) \<rparr>
                      else x) (Inventory.weapons (inventory state))"
    using upgradeWeapon_weapons [of i state w] by (simp add: levelUp_def)
next
  assume "find (\<lambda>x. Item.id x = i) (Inventory.armor (inventory state)) = Some w
      \<and> Item.upgradeCost w \<le> gems state"
  then show "Inventory.armor (inventory (upgradeArmor i state))
          = map (\<lambda>x. if Item.id x = i
                      then x\<lparr> Item.level := Item.level x + 1,
                              Item.upgradeCost := Math_floor (Item.upgradeCost x * 1.5) \<rparr>
                      else x) (Inventory.armor (inventory state))"
    using upgradeArmor_armor [of i state w] by (simp add: levelUp_def)
next
  assume "find (\<lambda>x. RelicItem.id x = i) (relics (inventory state)) = Some r
      \<and> RelicItem.upgradeCost r \<le> gems state"
  then show "map (\<lambda>x. (RelicItem.id x, RelicItem.level x, RelicItem.upgradeCost x))
            (relics (inventory (upgradeRelic i state)))
          = map (\<lambda>x. if RelicItem.id x = i
                      then (RelicItem.id x, RelicItem.level x + 1,
                            Math_floor (RelicItem.upgradeCost x * 1.5))
                      else (RelicItem.id x, RelicItem.level x, RelicItem.upgradeCost x))
              (relics (inventory state))"
    using upgradeRelic_relics [of i state r] by (simp add: relicLevelUp_def)
next
  show "((\<lambda>c. Math_floor (c * 1.5)) ^^ 2) 5 = 10"
    by (simp add: Math_floor_def numeral_2_eq_2)
  show "Math_floor (5 * 1.5 ^ 2) = 11"
    by (simp add: Math_floor_def power2_eq_square)
qed

theorem upgrade_cost_stepwise_witness:
  "find (\<lambda>x. Item.id x = ''w1'') (Inventory.weapons (inventory equippedState))
     = Some exampleWeapon
   \<and> find (\<lambda>x. Item.id x = ''w1'')
        (Inventory.weapons (inventory ((upgradeWeapon ''w1'' ^^ 2) equippedState)))
     = Some (exampleWeapon\<lparr> Item.level := 3, Item.upgradeCost := 10 \<rparr>)
   \<and> gems ((upgradeWeapon ''w1'' ^^ 2) equippedState) = 88
   \<and> (\<exists>x. find (\<lambda>x. Item.id x = ''w1'')
              (Inventory.weapons (inventory ((upgradeWeapon ''w1'' ^^ 2) equippedState)))
            = Some x
          \<and> Item.upgradeCost x
              = ((\<lambda>c. Math_floor (c * 1.5)) ^^ 2) (Item.upgradeCost exampleWeapon)
          \<and> Item.level x = Item.level exampleWeapon + real 2)"
proof -
  have s1: "upgradeWeapon ''w1'' equippedState
            = equippedState
                \<lparr> gems := 95,
                  inventory := (inventory equippedState)
                    \<lparr> Inventory.weapons :=
                        [exampleWeapon\<lparr> Item.level := 2, Item.upgradeCost := 7 \<rparr>],
                      currentWeapon :=
                        Some (exampleWeapon\<lparr> Item.level := 2, Item.upgradeCost := 7 \<rparr>) \<rparr>,
                  statistics := (statistics equippedState)\<lparr> itemsUpgraded := 1 \<rparr> \<rparr>"
    by (simp add: upgradeWeapon_def equippedState_def exampleWeapon_def levelUp_def
        refreshCurrent_def Math_floor_def createInitialGameState_def initialStatistics_def)
  have s2: "(upgradeWeapon ''w1'' ^^ 2) equippedState
            = equippedState
                \<lparr> gems := 88,
                  inventory := (inventory equippedState)
                    \<lparr> Inventory.weapons :=
                        [exampleWeapon\<lparr> Item.level := 3, Item.upgradeCost := 10 \<rparr>],
                      currentWeapon :=
                        Some (exampleWeapon\<lparr> Item.level := 3, Item.upgradeCost := 10 \<rparr>) \<rparr>,
                  statistics := (statistics equippedState)\<lparr> itemsUpgraded := 2 \<rparr> \<rparr>"
    unfolding numeral_2_eq_2 funpow.simps o_def id_def s1
    by (simp add: upgradeWeapon_def equippedState_def exampleWeapon_def levelUp_def
        refreshCurrent_def Math_floor_def createInitialGameState_def initialStatistics_def)
  have f0: "find (\<lambda>x. Item.id x = ''w1'') (Inventory.weapons (inventory equippedState))
            = Some exampleWeapon"
    by (simp add: equippedState_def exampleWeapon_def)
  have ok: "\<forall>j<2. \<forall>x. find (\<lambda>x. Item.id x = ''w1'')
                        (Inventory.weapons (inventory ((upgradeWeapon ''w1'' ^^ j) equippedState)))
                        = Some x
                    \<longrightarrow> Item.upgradeCost x \<le> gems ((upgradeWeapon ''w1'' ^^ j) equippedState)"
  proof (intro allI impI)
    fix j :: nat and x
    assume j: "j < 2"
      and x: "find (\<lambda>x. Item.id x = ''w1'')
                (Inventory.weapons (inventory ((upgradeWeapon ''w1'' ^^ j) equippedState)))
              = Some x"
    from j have "j = 0 \<or> j = 1" by auto
    then show "Item.upgradeCost x \<le> gems ((upgradeWeapon ''w1'' ^^ j) equippedState)"
    proof
      assume "j = 0"
      with x show ?thesis by (auto simp add: equippedState_def exampleWeapon_def)
    next
      assume "j = 1"
      with x show ?thesis by (auto simp add: s1 exampleWeapon_def)
    qed
  qed
  from upgrade_cost_stepwise [of "''w1''" equippedState exampleWeapon 2] f0 ok
  have "\<exists>x. find (\<lambda>x. Item.id x = ''w1'')
              (Inventory.weapons (inventory ((upgradeWeapon ''w1'' ^^ 2) equippedState)))
            = Some x
          \<and> Item.upgradeCost x
              = ((\<lambda>c. Math_floor (c * 1.5)) ^^ 2) (Item.upgradeCost exampleWeapon)
          \<and> Item.level x = Item.level exampleWeapon + real 2"
    by blast
  moreover have "find (\<lambda>x. Item.id x = ''w1'')
        (Inventory.weapons (inventory ((upgradeWeapon ''w1'' ^^ 2) equippedState)))
     = Some (exampleWeapon\<lparr> Item.level := 3, Item.upgradeCost := 10 \<rparr>)"
    by (simp add: s2 exampleWeapon_def)
  moreover have "gems ((upgradeWeapon ''w1'' ^^ 2) equippedState) = 88"
    by (simp add: s2)
  ultimately show ?thesis using f0 by blast
qed

section \<open>C8: the rarity scan of openChest\<close>

lemma rarityLoop_first:
  "i < length ws \<Longrightarrow> random \<le> c + sum_list (take (Suc i) ws) \<Longrightarrow>
   (\<forall>j<i. \<not> random \<le> c + sum_list (take (Suc j) ws)) \<Longrightarrow>
   rarityLoop ws k c random sel = rarityAt (k + i)"
proof (induction ws arbitrary: i k c)
  case Nil
  then show ?case by simp
next
  case (Cons w ws)
  show ?case
  proof (cases i)
    case 0
    with Cons.prems show ?thesis by simp
  next
    case (Suc n)
    from Cons.prems(3) Suc have nf: "\<not> random \<le> c + w" by fastforce
    have a: "n < length ws" using Cons.prems(1) Suc by simp
    have b: "random \<le> (c + w) + sum_list (take (Suc n) ws)"
      using Cons.prems(2) Suc by (simp add: add.assoc)
    have d: "\<forall>j<n. \<not> random \<le> (c + w) + sum_list (take (Suc j) ws)"
    proof (intro allI impI)
      fix j assume "j < n"
      then have "Suc j < i" using Suc by simp
      with Cons.prems(3) have "\<not> random \<le> c + sum_list (take (Suc (Suc j)) (w # ws))" by blast
      then show "\<not> random \<le> (c + w) + sum_list (take (Suc j) ws)" by (simp add: add.assoc)
    qed
    from Cons.IH[OF a b d, of "Suc k"] nf Suc show ?thesis by simp
  qed
qed

text \<open>
  Claim C8. \<^verbatim>\<open>openChest\<close> scans the weights in the order common, rare, epic, legendary,
  mythical and picks the first rarity whose running cumulative weight is at least the draw:
  when index \<open>i\<close> is the first one with \<open>random \<le> weights[0] + ... + weights[i]\<close>, the
  selected rarity is the \<open>i\<close>-th of the five. With the weights 70, 20, 7, 2, 1 and the draw
  71 it is rare. The item added to the inventory is the one the generator makes for that
  rarity.
\<close>

theorem openChest_rarity_selection:
  "(i < length weights \<and> i < 5 \<and> random \<le> sum_list (take (Suc i) weights)
      \<and> (\<forall>j<i. sum_list (take (Suc j) weights) < random)
    \<longrightarrow> selectRarity weights random = Some (rarities ! i))
   \<and> selectRarity [70, 20, 7, 2, 1] 71 = Some Rare
   \<and> (cost' \<le> coins state \<and> r2 < 0.7 \<longrightarrow>
        Inventory.weapons (inventory (openChest cost' weights random r2 r3 gw ga state))
          = Inventory.weapons (inventory state) @ [gw False (selectRarity weights random)])
   \<and> (cost' \<le> coins state \<and> \<not> r2 < 0.7 \<longrightarrow>
        Inventory.armor (inventory (openChest cost' weights random r2 r3 gw ga state))
          = Inventory.armor (inventory state) @ [ga False (selectRarity weights random)])"
proof (intro conjI impI)
  assume h: "i < length weights \<and> i < 5 \<and> random \<le> sum_list (take (Suc i) weights)
      \<and> (\<forall>j<i. sum_list (take (Suc j) weights) < random)"
  then have "rarityLoop weights 0 0 random (Some Common) = rarityAt (0 + i)"
    by (intro rarityLoop_first) (auto simp: not_le)
  with h show "selectRarity weights random = Some (rarities ! i)"
    by (simp add: selectRarity_def rarityAt_def rarities_def)
next
  show "selectRarity [70, 20, 7, 2, 1] 71 = Some Rare"
    by (simp add: selectRarity_def rarityAt_def rarities_def)
next
  assume "cost' \<le> coins state \<and> r2 < 0.7"
  then show "Inventory.weapons (inventory (openChest cost' weights random r2 r3 gw ga state))
          = Inventory.weapons (inventory state) @ [gw False (selectRarity weights random)]"
    by (simp add: openChest_def Let_def)
next
  assume "cost' \<le> coins state \<and> \<not> r2 < 0.7"
  then show "Inventory.armor (inventory (openChest cost' weights random r2 r3 gw ga state))
          = Inventory.armor (inventory state) @ [ga False (selectRarity weights random)]"
    by (simp add: openChest_def Let_def)
qed

theorem openChest_rarity_selection_witness:
  "(1::nat) < length [70, 20, 7, 2, 1::real] \<and> (1::nat) < 5
   \<and> (71::real) \<le> sum_list (take (Suc 1) [70, 20, 7, 2, 1])
   \<and> selectRarity [70, 20, 7, 2, 1] 71 = Some (rarities ! 1)
   \<and> (50::real) \<le> coins (createInitialGameState 0) \<and> (0.5::real) < 0.7
   \<and> Inventory.weapons (inventory (openChest 50 [70, 20, 7, 2, 1] 71 0.5 0.3
         (\<lambda>b r. \<lparr> Item.id = ''w1'', Item.name = ''Sword'',
                   rarity = (case r of Some x \<Rightarrow> x | None \<Rightarrow> Common),
                   Item.level = 1, Item.upgradeCost = 10, sellPrice = 5 \<rparr>)
         (\<lambda>b r. \<lparr> Item.id = ''a1'', Item.name = ''Plate'',
                   rarity = (case r of Some x \<Rightarrow> x | None \<Rightarrow> Common),
                   Item.level = 1, Item.upgradeCost = 10, sellPrice = 5 \<rparr>)
         (createInitialGameState 0)))
      = [\<lparr> Item.id = ''w1'', Item.name = ''Sword'', rarity = Rare,
           Item.level = 1, Item.upgradeCost = 10, sellPrice = 5 \<rparr>]"
  using openChest_rarity_selection [of 1 "[70, 20, 7, 2, 1]" 71 50 "createInitialGameState 0" "0.5" "0.3"
         "(\<lambda>b r. \<lparr> Item.id = ''w1'', Item.name = ''Sword'',
                   rarity = (case r of Some x \<Rightarrow> x | None \<Rightarrow> Common),
                   Item.level = 1, Item.upgradeCost = 10, sellPrice = 5 \<rparr>)"
         "(\<lambda>b r. \<lparr> Item.id = ''a1'', Item.name = ''Plate'',
                   rarity = (case r of Some x \<Rightarrow> x | None \<Rightarrow> Common),
                   Item.level = 1, Item.upgradeCost = 10, sellPrice = 5 \<rparr>)"]
  by (simp add: createInitialGameState_def rarities_def less_Suc_eq)

section \<open>C9: hydration\<close>

lemma map_add_case:
  "(m ++ n) k = (case n k of Some v \<Rightarrow> Some v | None \<Rightarrow> m k)"
  by (simp add: map_add_def split: option.splits)

lemma completeState_object:
  "completeState achievements playerTags n1 n2 n3 (JObj kvs) =
     Some (AList.update ''adventureSkills''
             (JObj (AList.merge initialAdventureSkillsProps
                      (spreadProps (map_of kvs ''adventureSkills''))))
             (AList.update ''skills''
                (JObj (AList.merge (initialSkillsProps n2) (spreadProps (map_of kvs ''skills''))))
                (AList.merge (createInitialGameStateJson achievements playerTags n1) kvs)))"
  by (simp add: completeState_def initialSub_def createInitialGameStateJson_def)

text \<open>
  What the loader computes from a snapshot that is an object. When the snapshot lacks the
  \<^verbatim>\<open>adventureSkills\<close> field, the loaded \<^verbatim>\<open>adventureSkills\<close> is the default: no selected
  skill, no available skills, the modal hidden, the six effect flags false. For every
  top-level key but \<^verbatim>\<open>skills\<close> and \<^verbatim>\<open>adventureSkills\<close>, the snapshot's value is taken
  when the key is present and the default otherwise. In \<^verbatim>\<open>skills\<close> and
  \<^verbatim>\<open>adventureSkills\<close> a key has the snapshot's value when the snapshot's sub-object has
  the key, and the default's value otherwise.
\<close>

lemma loadGameState_one_level:
  "(map_of kvs ''adventureSkills'' = None \<longrightarrow>
      map_of (loadGameState achievements playerTags n1 n2 n3 (Parsed (JObj kvs)))
        ''adventureSkills''
      = Some (JObj [(''selectedSkill'', JNull), (''availableSkills'', JArr []),
                    (''showSelectionModal'', JBool False),
                    (''skillEffects'',
                       JObj [(''skipCardUsed'', JBool False), (''metalShieldUsed'', JBool False),
                             (''dodgeUsed'', JBool False), (''truthLiesActive'', JBool False),
                             (''lightningChainActive'', JBool False),
                             (''rampActive'', JBool False)])]))
   \<and> map_of (createInitialGameStateJson achievements playerTags n1) ''adventureSkills''
       = Some (JObj [(''selectedSkill'', JNull), (''availableSkills'', JArr []),
                    (''showSelectionModal'', JBool False),
                    (''skillEffects'',
                       JObj [(''skipCardUsed'', JBool False), (''metalShieldUsed'', JBool False),
                             (''dodgeUsed'', JBool False), (''truthLiesActive'', JBool False),
                             (''lightningChainActive'', JBool False),
                             (''rampActive'', JBool False)])])
   \<and> (key \<noteq> ''skills'' \<and> key \<noteq> ''adventureSkills'' \<longrightarrow>
        map_of (loadGameState achievements playerTags n1 n2 n3 (Parsed (JObj kvs))) key
        = (case map_of kvs key of
             Some v \<Rightarrow> Some v
           | None \<Rightarrow> map_of (createInitialGameStateJson achievements playerTags n1) key))
   \<and> (\<exists>sub. map_of (loadGameState achievements playerTags n1 n2 n3 (Parsed (JObj kvs))) ''skills''
               = Some (JObj sub)
             \<and> (\<forall>k. map_of sub k
                      = (case map_of (spreadProps (map_of kvs ''skills'')) k of
                           Some v \<Rightarrow> Some v
                         | None \<Rightarrow> map_of (initialSkillsProps n2) k)))
   \<and> (\<exists>sub. map_of (loadGameState achievements playerTags n1 n2 n3 (Parsed (JObj kvs)))
                 ''adventureSkills''
               = Some (JObj sub)
             \<and> (\<forall>k. map_of sub k
                      = (case map_of (spreadProps (map_of kvs ''adventureSkills'')) k of
                           Some v \<Rightarrow> Some v
                         | None \<Rightarrow> map_of initialAdventureSkillsProps k)))"
proof (intro conjI impI)
  assume "map_of kvs ''adventureSkills'' = None"
  then show "map_of (loadGameState achievements playerTags n1 n2 n3 (Parsed (JObj kvs)))
        ''adventureSkills''
      = Some (JObj [(''selectedSkill'', JNull), (''availableSkills'', JArr []),
                    (''showSelectionModal'', JBool False),
                    (''skillEffects'',
                       JObj [(''skipCardUsed'', JBool False), (''metalShieldUsed'', JBool False),
                             (''dodgeUsed'', JBool False), (''truthLiesActive'', JBool False),
                             (''lightningChainActive'', JBool False),
                             (''rampActive'', JBool False)])])"
    by (simp add: loadGameState_def completeState_object update_conv'
        initialAdventureSkillsProps_def initialSkillEffectsJson_def)
next
  show "map_of (createInitialGameStateJson achievements playerTags n1) ''adventureSkills''
       = Some (JObj [(''selectedSkill'', JNull), (''availableSkills'', JArr []),
                    (''showSelectionModal'', JBool False),
                    (''skillEffects'',
                       JObj [(''skipCardUsed'', JBool False), (''metalShieldUsed'', JBool False),
                             (''dodgeUsed'', JBool False), (''truthLiesActive'', JBool False),
                             (''lightningChainActive'', JBool False),
                             (''rampActive'', JBool False)])])"
    by (simp add: createInitialGameStateJson_def initialAdventureSkillsProps_def
        initialSkillEffectsJson_def)
next
  assume "key \<noteq> ''skills'' \<and> key \<noteq> ''adventureSkills''"
  then show "map_of (loadGameState achievements playerTags n1 n2 n3 (Parsed (JObj kvs))) key
        = (case map_of kvs key of
             Some v \<Rightarrow> Some v
           | None \<Rightarrow> map_of (createInitialGameStateJson achievements playerTags n1) key)"
    by (simp add: loadGameState_def completeState_object update_conv' merge_conv' map_add_case)
next
  show "\<exists>sub. map_of (loadGameState achievements playerTags n1 n2 n3 (Parsed (JObj kvs))) ''skills''
               = Some (JObj sub)
             \<and> (\<forall>k. map_of sub k
                      = (case map_of (spreadProps (map_of kvs ''skills'')) k of
                           Some v \<Rightarrow> Some v
                         | None \<Rightarrow> map_of (initialSkillsProps n2) k))"
    by (intro exI [where x = "AList.merge (initialSkillsProps n2)
                                (spreadProps (map_of kvs ''skills''))"])
       (simp add: loadGameState_def completeState_object update_conv' merge_conv' map_add_case)
next
  show "\<exists>sub. map_of (loadGameState achievements playerTags n1 n2 n3 (Parsed (JObj kvs)))
                 ''adventureSkills''
               = Some (JObj sub)
             \<and> (\<forall>k. map_of sub k
                      = (case map_of (spreadProps (map_of kvs ''adventureSkills'')) k of
                           Some v \<Rightarrow> Some v
                         | None \<Rightarrow> map_of initialAdventureSkillsProps k))"
    by (intro exI [where x = "AList.merge initialAdventureSkillsProps
                                (spreadProps (map_of kvs ''adventureSkills''))"])
       (simp add: loadGameState_def completeState_object update_conv' merge_conv' map_add_case)
qed

text \<open>The snapshot written before the adventure skills existed, loaded.\<close>

lemma loadGameState_oldSnapshot:
  "map_of [(''coins'', JNum 5), (''zone'', JNum 7),
           (''skills'', JObj [(''playTimeThisSession'', JNum 42)])] ''adventureSkills'' = None
   \<and> oldSnapshot = JObj [(''coins'', JNum 5), (''zone'', JNum 7),
                         (''skills'', JObj [(''playTimeThisSession'', JNum 42)])]
   \<and> map_of (loadGameState JNull JNull 1 2 3 (Parsed oldSnapshot)) ''adventureSkills''
       = Some (JObj [(''selectedSkill'', JNull), (''availableSkills'', JArr []),
                    (''showSelectionModal'', JBool False),
                    (''skillEffects'',
                       JObj [(''skipCardUsed'', JBool False), (''metalShieldUsed'', JBool False),
                             (''dodgeUsed'', JBool False), (''truthLiesActive'', JBool False),
                             (''lightningChainActive'', JBool False),
                             (''rampActive'', JBool False)])])
   \<and> map_of (loadGameState JNull JNull 1 2 3 (Parsed oldSnapshot)) ''coins'' = Some (JNum 5)
   \<and> map_of (loadGameState JNull JNull 1 2 3 (Parsed oldSnapshot)) ''gems'' = Some (JNum 0)
   \<and> map_of (loadGameState JNull JNull 1 2 3 (Parsed oldSnapshot)) ''skills''
       = Some (JObj [(''activeMenuSkill'', JNull), (''lastRollTime'', JNull),
                     (''playTimeThisSession'', JNum 42), (''sessionStartTime'', JDate 2)])"
proof -
  have a: "map_of [(''coins'', JNum 5), (''zone'', JNum 7),
           (''skills'', JObj [(''playTimeThisSession'', JNum 42)])] ''adventureSkills'' = None"
    by simp
  have c: "''coins'' \<noteq> ''skills'' \<and> ''coins'' \<noteq> ''adventureSkills''" by simp
  have g: "''gems'' \<noteq> ''skills'' \<and> ''gems'' \<noteq> ''adventureSkills''" by simp
  from loadGameState_one_level
         [of "[(''coins'', JNum 5), (''zone'', JNum 7),
               (''skills'', JObj [(''playTimeThisSession'', JNum 42)])]" JNull JNull 1 2 3
             "''coins''"] a c
  have r1: "map_of (loadGameState JNull JNull 1 2 3 (Parsed oldSnapshot)) ''adventureSkills''
       = Some (JObj [(''selectedSkill'', JNull), (''availableSkills'', JArr []),
                    (''showSelectionModal'', JBool False),
                    (''skillEffects'',
                       JObj [(''skipCardUsed'', JBool False), (''metalShieldUsed'', JBool False),
                             (''dodgeUsed'', JBool False), (''truthLiesActive'', JBool False),
                             (''lightningChainActive'', JBool False),
                             (''rampActive'', JBool False)])])"
    and r2: "map_of (loadGameState JNull JNull 1 2 3 (Parsed oldSnapshot)) ''coins''
               = Some (JNum 5)"
    by (simp_all add: oldSnapshot_def)
  from loadGameState_one_level
         [of "[(''coins'', JNum 5), (''zone'', JNum 7),
               (''skills'', JObj [(''playTimeThisSession'', JNum 42)])]" JNull JNull 1 2 3
             "''gems''"] g
  have r3: "map_of (loadGameState JNull JNull 1 2 3 (Parsed oldSnapshot)) ''gems''
              = Some (JNum 0)"
    by (simp add: oldSnapshot_def createInitialGameStateJson_def)
  have r4: "map_of (loadGameState JNull JNull 1 2 3 (Parsed oldSnapshot)) ''skills''
       = Some (JObj [(''activeMenuSkill'', JNull), (''lastRollTime'', JNull),
                     (''playTimeThisSession'', JNum 42), (''sessionStartTime'', JDate 2)])"
    by (simp add: oldSnapshot_def loadGameState_def completeState_object update_conv'
        initialSkillsProps_def)
  show ?thesis using a r1 r2 r3 r4 by (simp add: oldSnapshot_def)
qed

text \<open>
  Claim C9. The \<^verbatim>\<open>adventureSkills\<close> sub-object of the loaded state is the deep merge of
  the default with the persisted one, so that every field of the default is populated. The
  loader does not do this for the nested \<^verbatim>\<open>skillEffects\<close>: it merges one level only,
  against its own remark \<^verbatim>\<open>// Ensure all new properties exist\<close>. From the snapshot
  \<^verbatim>\<open>{"adventureSkills": {"skillEffects": {"dodgeUsed": true}}}\<close> the loaded
  \<^verbatim>\<open>skillEffects\<close> is \<^verbatim>\<open>{"dodgeUsed": true}\<close>: the five other flags are missing. The
  deep merge has all six, \<^verbatim>\<open>dodgeUsed\<close> true and the others false.
\<close>

theorem loadGameState_skillEffects_not_merged:
  "map_of (loadGameState JNull JNull 1 2 3 (Parsed partialEffectsSnapshot)) ''adventureSkills''
     = Some (JObj [(''selectedSkill'', JNull), (''availableSkills'', JArr []),
                   (''showSelectionModal'', JBool False),
                   (''skillEffects'', JObj [(''dodgeUsed'', JBool True)])])
   \<and> deepMerge (JObj initialAdventureSkillsProps)
        (JObj [(''skillEffects'', JObj [(''dodgeUsed'', JBool True)])])
     = JObj [(''selectedSkill'', JNull), (''availableSkills'', JArr []),
             (''showSelectionModal'', JBool False),
             (''skillEffects'',
                JObj [(''skipCardUsed'', JBool False), (''metalShieldUsed'', JBool False),
                      (''dodgeUsed'', JBool True), (''truthLiesActive'', JBool False),
                      (''lightningChainActive'', JBool False), (''rampActive'', JBool False)])]
   \<and> map_of (loadGameState JNull JNull 1 2 3 (Parsed partialEffectsSnapshot)) ''adventureSkills''
     \<noteq> Some (deepMerge (JObj initialAdventureSkillsProps)
               (JObj [(''skillEffects'', JObj [(''dodgeUsed'', JBool True)])]))"
proof -
  have a: "map_of (loadGameState JNull JNull 1 2 3 (Parsed partialEffectsSnapshot))
             ''adventureSkills''
     = Some (JObj [(''selectedSkill'', JNull), (''availableSkills'', JArr []),
                   (''showSelectionModal'', JBool False),
                   (''skillEffects'', JObj [(''dodgeUsed'', JBool True)])])"
    by (simp add: partialEffectsSnapshot_def loadGameState_def completeState_object update_conv'
        initialAdventureSkillsProps_def)
  have b: "deepMerge (JObj initialAdventureSkillsProps)
        (JObj [(''skillEffects'', JObj [(''dodgeUsed'', JBool True)])])
     = JObj [(''selectedSkill'', JNull), (''availableSkills'', JArr []),
             (''showSelectionModal'', JBool False),
             (''skillEffects'',
                JObj [(''skipCardUsed'', JBool False), (''metalShieldUsed'', JBool False),
                      (''dodgeUsed'', JBool True), (''truthLiesActive'', JBool False),
                      (''lightningChainActive'', JBool False), (''rampActive'', JBool False)])]"
    by (simp add: initialAdventureSkillsProps_def initialSkillEffectsJson_def)
  show ?thesis unfolding a b by simp
qed

section \<open>C10: removing an equipped item\<close>

text \<open>
  Claim C10. \<^verbatim>\<open>discardItem\<close> and \<^verbatim>\<open>sellRelic\<close> have no guard for equipped items.
  When a weapon (an armor) is equipped, \<^verbatim>\<open>discardItem\<close> with its id removes the items of
  that id from the owned list and keeps the others, in their order; the equipped item is
  no longer in the list, \<^verbatim>\<open>currentWeapon\<close> (\<^verbatim>\<open>currentArmor\<close>) still holds it, and the
  other list, the relics and the coins stay. \<^verbatim>\<open>sellRelic\<close> removes the relics of the id
  from \<^verbatim>\<open>relics\<close> and from \<^verbatim>\<open>equippedRelics\<close>, keeps the others, and pays nothing.
  The guarded operations are \<^verbatim>\<open>sellWeapon\<close> and \<^verbatim>\<open>sellArmor\<close>, which return the state
  unchanged for the equipped id and otherwise remove an owned item of the id and pay its
  price, and \<^verbatim>\<open>bulkSell\<close>, which removes the items whose id is listed except those
  carrying the equipped id.
\<close>

theorem discardItem_sellRelic_unguarded:
  "(currentWeapon (inventory state) = Some w \<longrightarrow>
      Inventory.weapons (inventory (discardItem (Item.id w) WeaponKind state))
        = filter (\<lambda>x. Item.id x \<noteq> Item.id w) (Inventory.weapons (inventory state))
      \<and> w \<notin> set (Inventory.weapons (inventory (discardItem (Item.id w) WeaponKind state)))
      \<and> currentWeapon (inventory (discardItem (Item.id w) WeaponKind state)) = Some w
      \<and> Inventory.armor (inventory (discardItem (Item.id w) WeaponKind state))
          = Inventory.armor (inventory state)
      \<and> relics (inventory (discardItem (Item.id w) WeaponKind state)) = relics (inventory state)
      \<and> coins (discardItem (Item.id w) WeaponKind state) = coins state)
   \<and> (currentArmor (inventory state) = Some a \<longrightarrow>
      Inventory.armor (inventory (discardItem (Item.id a) ArmorKind state))
        = filter (\<lambda>x. Item.id x \<noteq> Item.id a) (Inventory.armor (inventory state))
      \<and> a \<notin> set (Inventory.armor (inventory (discardItem (Item.id a) ArmorKind state)))
      \<and> currentArmor (inventory (discardItem (Item.id a) ArmorKind state)) = Some a
      \<and> Inventory.weapons (inventory (discardItem (Item.id a) ArmorKind state))
          = Inventory.weapons (inventory state)
      \<and> relics (inventory (discardItem (Item.id a) ArmorKind state)) = relics (inventory state)
      \<and> coins (discardItem (Item.id a) ArmorKind state) = coins state)
   \<and> relics (inventory (sellRelic relicId state))
       = filter (\<lambda>r. RelicItem.id r \<noteq> relicId) (relics (inventory state))
   \<and> equippedRelics (inventory (sellRelic relicId state))
       = filter (\<lambda>r. RelicItem.id r \<noteq> relicId) (equippedRelics (inventory state))
   \<and> Inventory.weapons (inventory (sellRelic relicId state)) = Inventory.weapons (inventory state)
   \<and> Inventory.armor (inventory (sellRelic relicId state)) = Inventory.armor (inventory state)
   \<and> coins (sellRelic relicId state) = coins state
   \<and> gems (sellRelic relicId state) = gems state
   \<and> (currentWeapon (inventory state) = Some w \<longrightarrow> sellWeapon (Item.id w) state = state)
   \<and> (currentArmor (inventory state) = Some a \<longrightarrow> sellArmor (Item.id a) state = state)
   \<and> (find (\<lambda>x. Item.id x = itemId) (Inventory.weapons (inventory state)) = Some sold
       \<and> \<not> isCurrent (currentWeapon (inventory state)) itemId \<longrightarrow>
        Inventory.weapons (inventory (sellWeapon itemId state))
          = filter (\<lambda>x. Item.id x \<noteq> itemId) (Inventory.weapons (inventory state))
        \<and> coins (sellWeapon itemId state) = coins state + sellPrice sold)
   \<and> (find (\<lambda>x. Item.id x = itemId) (Inventory.armor (inventory state)) = Some sold
       \<and> \<not> isCurrent (currentArmor (inventory state)) itemId \<longrightarrow>
        Inventory.armor (inventory (sellArmor itemId state))
          = filter (\<lambda>x. Item.id x \<noteq> itemId) (Inventory.armor (inventory state))
        \<and> coins (sellArmor itemId state) = coins state + sellPrice sold)
   \<and> (currentWeapon (inventory state) = Some w \<longrightarrow>
        Inventory.weapons (inventory (bulkSell itemIds WeaponKind state))
        = filter (\<lambda>x. Item.id x \<notin> set itemIds \<or> Item.id x = Item.id w)
            (Inventory.weapons (inventory state)))
   \<and> (currentArmor (inventory state) = Some a \<longrightarrow>
        Inventory.armor (inventory (bulkSell itemIds ArmorKind state))
        = filter (\<lambda>x. Item.id x \<notin> set itemIds \<or> Item.id x = Item.id a)
            (Inventory.armor (inventory state)))"
proof (intro conjI impI)
  assume cw: "currentWeapon (inventory state) = Some w"
  show "Inventory.weapons (inventory (discardItem (Item.id w) WeaponKind state))
        = filter (\<lambda>x. Item.id x \<noteq> Item.id w) (Inventory.weapons (inventory state))"
    and "w \<notin> set (Inventory.weapons (inventory (discardItem (Item.id w) WeaponKind state)))"
    and "Inventory.armor (inventory (discardItem (Item.id w) WeaponKind state))
          = Inventory.armor (inventory state)"
    and "relics (inventory (discardItem (Item.id w) WeaponKind state)) = relics (inventory state)"
    and "coins (discardItem (Item.id w) WeaponKind state) = coins state"
    by (simp_all add: discardItem_def)
  show "currentWeapon (inventory (discardItem (Item.id w) WeaponKind state)) = Some w"
    using cw by (simp add: discardItem_def)
  show "sellWeapon (Item.id w) state = state"
    using cw by (simp add: sellWeapon_def isCurrent_def split: option.splits)
  show "Inventory.weapons (inventory (bulkSell itemIds WeaponKind state))
        = filter (\<lambda>x. Item.id x \<notin> set itemIds \<or> Item.id x = Item.id w)
            (Inventory.weapons (inventory state))"
    using cw by (auto simp add: bulkSell_def Let_def isCurrent_def intro!: filter_cong)
next
  assume ca: "currentArmor (inventory state) = Some a"
  show "Inventory.armor (inventory (discardItem (Item.id a) ArmorKind state))
        = filter (\<lambda>x. Item.id x \<noteq> Item.id a) (Inventory.armor (inventory state))"
    and "a \<notin> set (Inventory.armor (inventory (discardItem (Item.id a) ArmorKind state)))"
    and "Inventory.weapons (inventory (discardItem (Item.id a) ArmorKind state))
          = Inventory.weapons (inventory state)"
    and "relics (inventory (discardItem (Item.id a) ArmorKind state)) = relics (inventory state)"
    and "coins (discardItem (Item.id a) ArmorKind state) = coins state"
    by (simp_all add: discardItem_def)
  show "currentArmor (inventory (discardItem (Item.id a) ArmorKind state)) = Some a"
    using ca by (simp add: discardItem_def)
  show "sellArmor (Item.id a) state = state"
    using ca by (simp add: sellArmor_def isCurrent_def split: option.splits)
  show "Inventory.armor (inventory (bulkSell itemIds ArmorKind state))
        = filter (\<lambda>x. Item.id x \<notin> set itemIds \<or> Item.id x = Item.id a)
            (Inventory.armor (inventory state))"
    using ca by (auto simp add: bulkSell_def Let_def isCurrent_def intro!: filter_cong)
next
  assume h: "find (\<lambda>x. Item.id x = itemId) (Inventory.weapons (inventory state)) = Some sold
       \<and> \<not> isCurrent (currentWeapon (inventory state)) itemId"
  then show "Inventory.weapons (inventory (sellWeapon itemId state))
          = filter (\<lambda>x. Item.id x \<noteq> itemId) (Inventory.weapons (inventory state))"
    and "coins (sellWeapon itemId state) = coins state + sellPrice sold"
    by (simp_all add: sellWeapon_def)
next
  assume h: "find (\<lambda>x. Item.id x = itemId) (Inventory.armor (inventory state)) = Some sold
       \<and> \<not> isCurrent (currentArmor (inventory state)) itemId"
  then show "Inventory.armor (inventory (sellArmor itemId state))
          = filter (\<lambda>x. Item.id x \<noteq> itemId) (Inventory.armor (inventory state))"
    and "coins (sellArmor itemId state) = coins state + sellPrice sold"
    by (simp_all add: sellArmor_def)
qed (simp_all add: sellRelic_def)

theorem discardItem_sellRelic_unguarded_witness:
  "currentWeapon (inventory stockedState) = Some exampleWeapon
   \<and> currentArmor (inventory stockedState) = Some exampleArmor
   \<and> Inventory.weapons (inventory stockedState) = [exampleWeapon, spareWeapon]
   \<and> Inventory.armor (inventory stockedState) = [exampleArmor, spareArmor]
   \<and> relics (inventory stockedState) = [exampleRelic, spareRelic]
   \<and> equippedRelics (inventory stockedState) = [exampleRelic, spareRelic]
   \<and> Inventory.weapons (inventory (discardItem ''w1'' WeaponKind stockedState)) = [spareWeapon]
   \<and> currentWeapon (inventory (discardItem ''w1'' WeaponKind stockedState)) = Some exampleWeapon
   \<and> Inventory.armor (inventory (discardItem ''w1'' WeaponKind stockedState))
       = [exampleArmor, spareArmor]
   \<and> Inventory.armor (inventory (discardItem ''a1'' ArmorKind stockedState)) = [spareArmor]
   \<and> currentArmor (inventory (discardItem ''a1'' ArmorKind stockedState)) = Some exampleArmor
   \<and> Inventory.weapons (inventory (discardItem ''a1'' ArmorKind stockedState))
       = [exampleWeapon, spareWeapon]
   \<and> relics (inventory (sellRelic ''r1'' stockedState)) = [spareRelic]
   \<and> equippedRelics (inventory (sellRelic ''r1'' stockedState)) = [spareRelic]
   \<and> coins (sellRelic ''r1'' stockedState) = 100
   \<and> sellWeapon ''w1'' stockedState = stockedState
   \<and> sellArmor ''a1'' stockedState = stockedState
   \<and> Inventory.weapons (inventory (sellWeapon ''w2'' stockedState)) = [exampleWeapon]
   \<and> coins (sellWeapon ''w2'' stockedState) = 106
   \<and> Inventory.armor (inventory (sellArmor ''a2'' stockedState)) = [exampleArmor]
   \<and> coins (sellArmor ''a2'' stockedState) = 102
   \<and> Inventory.weapons (inventory (bulkSell [''w1'', ''w2''] WeaponKind stockedState))
       = [exampleWeapon]
   \<and> Inventory.armor (inventory (bulkSell [''a1'', ''a2''] ArmorKind stockedState))
       = [exampleArmor]"
proof -
  note ids = exampleWeapon_def exampleArmor_def exampleRelic_def spareWeapon_def spareArmor_def
    spareRelic_def
  have w: "Item.id exampleWeapon = ''w1''" and a: "Item.id exampleArmor = ''a1''"
    and w2: "Item.id spareWeapon = ''w2''" and a2: "Item.id spareArmor = ''a2''"
    and r: "RelicItem.id exampleRelic = ''r1''" and r2: "RelicItem.id spareRelic = ''r2''"
    and p: "sellPrice spareWeapon = 6" "sellPrice spareArmor = 2"
    by (simp_all add: ids)
  have cw: "currentWeapon (inventory stockedState) = Some exampleWeapon"
    and ca: "currentArmor (inventory stockedState) = Some exampleArmor"
    and ws: "Inventory.weapons (inventory stockedState) = [exampleWeapon, spareWeapon]"
    and as: "Inventory.armor (inventory stockedState) = [exampleArmor, spareArmor]"
    and rs: "relics (inventory stockedState) = [exampleRelic, spareRelic]"
    and es: "equippedRelics (inventory stockedState) = [exampleRelic, spareRelic]"
    and co: "coins stockedState = 100"
    by (simp_all add: stockedState_def createInitialGameState_def)
  note t = discardItem_sellRelic_unguarded
             [where state = stockedState and w = exampleWeapon and a = exampleArmor
                and relicId = "''r1''"]
  from t [where itemId = "''w2''" and sold = spareWeapon and itemIds = "[''w1'', ''w2'']"] cw
  have dw: "Inventory.weapons (inventory (discardItem ''w1'' WeaponKind stockedState))
              = [spareWeapon]"
    "currentWeapon (inventory (discardItem ''w1'' WeaponKind stockedState)) = Some exampleWeapon"
    "Inventory.armor (inventory (discardItem ''w1'' WeaponKind stockedState))
       = [exampleArmor, spareArmor]"
    "sellWeapon ''w1'' stockedState = stockedState"
    "Inventory.weapons (inventory (bulkSell [''w1'', ''w2''] WeaponKind stockedState))
       = [exampleWeapon]"
    by (simp_all add: w w2 ws as)
  from t [where itemId = "''a2''" and sold = spareArmor and itemIds = "[''a1'', ''a2'']"] ca
  have da: "Inventory.armor (inventory (discardItem ''a1'' ArmorKind stockedState))
              = [spareArmor]"
    "currentArmor (inventory (discardItem ''a1'' ArmorKind stockedState)) = Some exampleArmor"
    "Inventory.weapons (inventory (discardItem ''a1'' ArmorKind stockedState))
       = [exampleWeapon, spareWeapon]"
    "sellArmor ''a1'' stockedState = stockedState"
    "Inventory.armor (inventory (bulkSell [''a1'', ''a2''] ArmorKind stockedState))
       = [exampleArmor]"
    by (simp_all add: a a2 ws as)
  from t [where itemId = "''w2''" and sold = spareWeapon and itemIds = "[]"]
  have sr: "relics (inventory (sellRelic ''r1'' stockedState)) = [spareRelic]"
    "equippedRelics (inventory (sellRelic ''r1'' stockedState)) = [spareRelic]"
    "coins (sellRelic ''r1'' stockedState) = 100"
    by (simp_all add: r r2 rs es co)
  have fw: "find (\<lambda>x. Item.id x = ''w2'') (Inventory.weapons (inventory stockedState))
              = Some spareWeapon
            \<and> \<not> isCurrent (currentWeapon (inventory stockedState)) ''w2''"
    by (simp add: ws cw w w2 isCurrent_def)
  have fa: "find (\<lambda>x. Item.id x = ''a2'') (Inventory.armor (inventory stockedState))
              = Some spareArmor
            \<and> \<not> isCurrent (currentArmor (inventory stockedState)) ''a2''"
    by (simp add: as ca a a2 isCurrent_def)
  from t [where itemId = "''w2''" and sold = spareWeapon and itemIds = "[]"] fw
  have sw: "Inventory.weapons (inventory (sellWeapon ''w2'' stockedState)) = [exampleWeapon]"
    "coins (sellWeapon ''w2'' stockedState) = 106"
    by (simp_all add: w w2 ws co p)
  from t [where itemId = "''a2''" and sold = spareArmor and itemIds = "[]"] fa
  have sa: "Inventory.armor (inventory (sellArmor ''a2'' stockedState)) = [exampleArmor]"
    "coins (sellArmor ''a2'' stockedState) = 102"
    by (simp_all add: a a2 as co p)
  show ?thesis using cw ca ws as rs es dw da sr sw sa by simp
qed

end
